theory Spec2Isabelle
  imports Main
begin

section \<open>Data model\<close>

text \<open>
  Dates are JavaScript \<open>Date\<close> values, represented by their millisecond timestamp.
  The Prisma schema itself is not part of the sources; the composite types below carry the
  fields that the services read and write (\<open>emailInfo\<close>, \<open>passwordInfo\<close>,
  \<open>lockoutInfo\<close>) and that the test fixtures spell out. A \<open>null\<close> or absent field
  is \<open>None\<close>.
\<close>

type_synonym date = int

record EmailInfo =
  isVerified :: bool
  verificationToken :: "string option"
  verificationExpires :: "date option"
  pendingEmail :: "string option"
  provider :: "string option"

record PasswordInfo =
  hash :: "string option"
  resetToken :: "string option"
  resetExpires :: "date option"

text \<open>
  Modelled from the spec: the type of \<open>failedAttemptCount\<close> is declared in the Prisma
  schema, which is missing; the data model of the specification gives it as an unsigned
  counter. The code only ever stores \<open>0\<close> or the old value plus one.
\<close>

record AccountLockoutInfo =
  isLocked :: bool
  lockedUntil :: "date option"
  failedAttemptCount :: nat

record User =
  id_user :: string
  fullname :: string
  email :: string
  phone :: "string option"
  profileImage :: "string option"
  emailInfo :: EmailInfo
  passwordInfo :: PasswordInfo
  lockoutInfo :: AccountLockoutInfo
  isActive :: bool
  lastLoginAt :: "date option"

record Session =
  userId :: string
  refreshToken :: string
  userAgent :: "string option"
  ipAddress :: "string option"
  expiresAt :: date

record TokenPair =
  accessToken :: string
  refreshToken_pair :: string
  expiresIn_pair :: string

text \<open>The two collections the services work on, in the order the database returns them.\<close>

record DB =
  users :: "User list"
  sessions :: "Session list"

text \<open>
  Errors are values. \<open>throwError message code\<close> of \<open>utils/response.ts\<close> raises an
  operational error carrying a message and a numeric code (500 when omitted); the other
  constructors are the exceptions of the Prisma client that the modelled calls can raise.
\<close>

datatype error =
    AppError string nat
  | PrismaRecordNotFound
  | PrismaUniqueConstraint
  | TemplateError

definition throwError :: "string \<Rightarrow> nat \<Rightarrow> error" where
  "throwError message code = AppError message code"

type_synonym 'a outcome = "(error + 'a) \<times> DB"

definition andThen :: "'a outcome \<Rightarrow> ('a \<Rightarrow> DB \<Rightarrow> 'b outcome) \<Rightarrow> 'b outcome" where
  "andThen r k = (case r of (Inl e, db) \<Rightarrow> (Inl e, db) | (Inr a, db) \<Rightarrow> k a db)"

subsection \<open>Values of the external libraries\<close>

text \<open>
  What \<open>jwt.verify\<close> of the \<open>jsonwebtoken\<close> package does with a token under the
  configured secret, issuer, audience and algorithm: it returns the payload or throws.
  \<open>TokenExpiredError\<close> and \<open>NotBeforeError\<close> are subclasses of
  \<open>JsonWebTokenError\<close>, which carries the reason as its message; anything else that
  can be thrown is \<open>OtherThrown\<close>.
\<close>

record IJWTPayload =
  userId_jwt :: string
  email_jwt :: string

datatype JwtThrown =
    TokenExpiredError
  | NotBeforeError
  | JsonWebTokenError string
  | OtherThrown

datatype JwtVerifyResult = Verified IJWTPayload | Thrown JwtThrown

text \<open>The answer of \<open>fetch\<close> on the GitHub email endpoint.\<close>

record GithubEmail =
  email_gh :: string
  primary :: bool
  verified :: bool

datatype FetchResult =
    FetchRejected
  | Response bool nat "GithubEmail list option"

text \<open>
  Everything a service call reads from outside the database: the clock, the configuration
  (\<open>config.security\<close>, \<open>config.jwt\<close>), and the library functions whose code is not part of
  the repository (SHA-256, bcrypt, the random generator, the JWT signer and verifier,
  the template renderer and the mail transport, which succeed or throw, and \<open>fetch\<close>).
  \<open>refreshExpiresIn\<close> is the configured string after \<open>parseInt\<close>. One call sees one
  instant \<open>now\<close>. \<open>addCalendarDays t n\<close> is what \<open>dayjs(t).add(n, "day").toDate()\<close> gives:
  dayjs adds days on the calendar of the process's local time zone, so the result is not
  a fixed number of milliseconds after \<open>t\<close> when a daylight-saving change lies between.
\<close>

record Env =
  now :: date
  addCalendarDays :: "date \<Rightarrow> int \<Rightarrow> date"
  maxLoginAttempts :: int
  loginLockTime :: int
  refreshExpiresIn :: int
  expiresIn :: string
  hashData :: "string \<Rightarrow> string"
  generateRandomString :: "nat \<Rightarrow> string"
  bcryptHash :: "string \<Rightarrow> string"
  bcryptCompare :: "string \<Rightarrow> string \<Rightarrow> bool"
  jwtSign :: "string \<Rightarrow> string \<Rightarrow> string"
  jwtVerify :: "string \<Rightarrow> JwtVerifyResult"
  renderTemplate :: "string \<Rightarrow> bool"
  sendMail :: "string \<Rightarrow> bool"
  fetch :: "string \<Rightarrow> string \<Rightarrow> FetchResult"
  newObjectId :: string

subsection \<open>JavaScript truthiness of optional strings\<close>

definition truthy :: "string option \<Rightarrow> bool" where
  "truthy s = (case s of None \<Rightarrow> False | Some v \<Rightarrow> v \<noteq> [])"

definition orNull :: "string option \<Rightarrow> string option" where
  "orNull s = (if truthy s then s else None)"

subsection \<open>\<open>utils/dayjs.ts\<close>\<close>

definition currentDate :: "Env \<Rightarrow> date" where
  "currentDate env = now env"

definition addMinutes :: "Env \<Rightarrow> int \<Rightarrow> date" where
  "addMinutes env minutes = now env + minutes * 60000"

text \<open>Adding minutes is arithmetic on the timestamp; adding days is calendar arithmetic.\<close>

definition addDays :: "Env \<Rightarrow> int \<Rightarrow> date" where
  "addDays env days = addCalendarDays env (now env) days"

section \<open>Storage operations\<close>

definition findUserById :: "string \<Rightarrow> DB \<Rightarrow> User option" where
  "findUserById i db = find (\<lambda>u. id_user u = i) (users db)"

definition findUserByEmail :: "string \<Rightarrow> DB \<Rightarrow> User option" where
  "findUserByEmail e db = find (\<lambda>u. email u = e) (users db)"

text \<open>
  \<open>prisma.user.update({where: {id}, data})\<close>: raises when no document has the id,
  otherwise rewrites the document and returns it.
\<close>

definition user_update :: "string \<Rightarrow> (User \<Rightarrow> User) \<Rightarrow> DB \<Rightarrow> User outcome" where
  "user_update i f db =
     (case findUserById i db of
        None \<Rightarrow> (Inl PrismaRecordNotFound, db)
      | Some u \<Rightarrow>
          (Inr (f u), db\<lparr>users := map (\<lambda>v. if id_user v = i then f v else v) (users db)\<rparr>))"

section \<open>Lockout policy (\<open>helpers/user.ts\<close>, \<open>services/UserService.ts\<close>)\<close>

definition isAccountLocked :: "Env \<Rightarrow> User \<Rightarrow> bool" where
  "isAccountLocked env user =
     (isLocked (lockoutInfo user) \<and>
      (case lockedUntil (lockoutInfo user) of
         None \<Rightarrow> False
       | Some t \<Rightarrow> currentDate env < t))"

text \<open>
  The update replaces the whole composite \<open>lockoutInfo\<close>; \<open>lockedUntil\<close> is part of the
  new value only when the threshold is reached.
\<close>

definition incrementFailedLoginAttempts :: "Env \<Rightarrow> User \<Rightarrow> DB \<Rightarrow> unit outcome" where
  "incrementFailedLoginAttempts env user db =
     (let lockout = lockoutInfo user;
          newAttempts = failedAttemptCount lockout + 1
      in andThen
           (user_update (id_user user)
              (\<lambda>u. u\<lparr>lockoutInfo :=
                 \<lparr>isLocked = (int newAttempts \<ge> maxLoginAttempts env),
                  lockedUntil =
                    (if int newAttempts \<ge> maxLoginAttempts env
                     then Some (addMinutes env (loginLockTime env)) else None),
                  failedAttemptCount = newAttempts\<rparr>\<rparr>) db)
           (\<lambda>_ db'. (Inr (), db')))"

definition resetFailedLoginAttempts :: "string \<Rightarrow> DB \<Rightarrow> unit outcome" where
  "resetFailedLoginAttempts uid db =
     andThen
       (user_update uid
          (\<lambda>u. u\<lparr>lockoutInfo :=
             \<lparr>isLocked = False, lockedUntil = None, failedAttemptCount = 0\<rparr>\<rparr>) db)
       (\<lambda>_ db'. (Inr (), db'))"

section \<open>Password login (\<open>services/UserService.ts\<close>)\<close>

definition comparePassword :: "Env \<Rightarrow> string option \<Rightarrow> string \<Rightarrow> bool" where
  "comparePassword env h input =
     (case h of
        None \<Rightarrow> False
      | Some hv \<Rightarrow> if hv = [] then False else bcryptCompare env input hv)"

definition authenticateUser ::
  "Env \<Rightarrow> string \<Rightarrow> string \<Rightarrow> DB \<Rightarrow> (User option \<times> bool) outcome" where
  "authenticateUser env em password db =
     (case findUserByEmail em db of
        None \<Rightarrow> (Inr (None, False), db)
      | Some user \<Rightarrow>
          if truthy (provider (emailInfo user)) \<and> \<not> truthy (hash (passwordInfo user)) then
            (Inl (throwError
               ''You signed in with a social account. To log in with a password, please set one using 'Forgot Password'.''
               403), db)
          else if \<not> isVerified (emailInfo user) then
            (Inl (throwError ''Please verify your email before logging in'' 403), db)
          else if isAccountLocked env user then
            (Inl (throwError
               ''Account is temporarily locked due to multiple failed login attempts''
               423), db)
          else if \<not> comparePassword env (hash (passwordInfo user)) password then
            andThen (incrementFailedLoginAttempts env user db)
              (\<lambda>_ db1. (Inr (Some user, False), db1))
          else
            andThen
              (if failedAttemptCount (lockoutInfo user) > 0
               then resetFailedLoginAttempts (id_user user) db
               else (Inr (), db))
              (\<lambda>_ db1.
                 andThen
                   (user_update (id_user user)
                      (\<lambda>u. u\<lparr>lastLoginAt := Some (currentDate env)\<rparr>) db1)
                   (\<lambda>_ db2. (Inr (Some user, True), db2))))"

text \<open>Repeated login attempts with the same credentials, each one on the state the last left.\<close>

fun loginAttempts :: "nat \<Rightarrow> Env \<Rightarrow> string \<Rightarrow> string \<Rightarrow> DB \<Rightarrow> DB" where
  "loginAttempts 0 env em password db = db"
| "loginAttempts (Suc n) env em password db =
     loginAttempts n env em password (snd (authenticateUser env em password db))"

section \<open>Access tokens (\<open>helpers/jwt.ts\<close>)\<close>

definition generateAccessToken :: "Env \<Rightarrow> User \<Rightarrow> string" where
  "generateAccessToken env user = jwtSign env (id_user user) (email user)"

fun instanceofTokenExpiredError :: "JwtThrown \<Rightarrow> bool" where
  "instanceofTokenExpiredError TokenExpiredError = True"
| "instanceofTokenExpiredError _ = False"

fun instanceofNotBeforeError :: "JwtThrown \<Rightarrow> bool" where
  "instanceofNotBeforeError NotBeforeError = True"
| "instanceofNotBeforeError _ = False"

fun instanceofJsonWebTokenError :: "JwtThrown \<Rightarrow> bool" where
  "instanceofJsonWebTokenError OtherThrown = False"
| "instanceofJsonWebTokenError _ = True"

definition verifyAccessToken :: "Env \<Rightarrow> string \<Rightarrow> error + IJWTPayload" where
  "verifyAccessToken env token =
     (case jwtVerify env token of
        Verified payload \<Rightarrow> Inr payload
      | Thrown err \<Rightarrow>
          if instanceofTokenExpiredError err then
            Inl (throwError ''Access token has expired'' 401)
          else if instanceofNotBeforeError err then
            Inl (throwError ''Access token not yet valid'' 401)
          else if instanceofJsonWebTokenError err then
            Inl (throwError ''Invalid access token'' 401)
          else
            Inl (throwError ''Invalid or expired access token'' 401))"

section \<open>Sessions (\<open>services/SessionService.ts\<close>)\<close>

text \<open>
  \<open>prisma.session.delete({where: {refreshToken}})\<close> addresses a session by its hashed
  refresh token, so that field is a unique key of the collection: creating a second session
  with a stored value raises, deleting a value that is not stored raises.
\<close>

definition session_create :: "Session \<Rightarrow> DB \<Rightarrow> Session outcome" where
  "session_create s db =
     (if refreshToken s \<in> set (map refreshToken (sessions db))
      then (Inl PrismaUniqueConstraint, db)
      else (Inr s, db\<lparr>sessions := sessions db @ [s]\<rparr>))"

definition session_delete :: "string \<Rightarrow> DB \<Rightarrow> unit outcome" where
  "session_delete h db =
     (if h \<in> set (map refreshToken (sessions db))
      then (Inr (), db\<lparr>sessions := filter (\<lambda>s. refreshToken s \<noteq> h) (sessions db)\<rparr>)
      else (Inl PrismaRecordNotFound, db))"

definition createSession ::
  "Env \<Rightarrow> User \<Rightarrow> string option \<Rightarrow> string option \<Rightarrow> DB \<Rightarrow> (Session \<times> string) outcome" where
  "createSession env user ua ip db =
     (let rt = generateRandomString env 40;
          expires = addDays env (refreshExpiresIn env)
      in andThen
           (session_create
              \<lparr>userId = id_user user, refreshToken = hashData env rt,
               userAgent = orNull ua, ipAddress = orNull ip, expiresAt = expires\<rparr> db)
           (\<lambda>session db'. (Inr (session, rt), db')))"

definition generateTokenPair ::
  "Env \<Rightarrow> User \<Rightarrow> string option \<Rightarrow> string option \<Rightarrow> DB \<Rightarrow> TokenPair outcome" where
  "generateTokenPair env user ua ip db =
     (let access = generateAccessToken env user
      in andThen (createSession env user ua ip db)
           (\<lambda>created db'.
              (Inr \<lparr>accessToken = access, refreshToken_pair = snd created,
                    expiresIn_pair = expiresIn env\<rparr>, db')))"

definition revokeRefreshToken :: "Env \<Rightarrow> string \<Rightarrow> DB \<Rightarrow> unit outcome" where
  "revokeRefreshToken env rt db = session_delete (hashData env rt) db"

definition revokeAllUserSessions :: "string \<Rightarrow> DB \<Rightarrow> unit outcome" where
  "revokeAllUserSessions uid db =
     (Inr (), db\<lparr>sessions := filter (\<lambda>s. userId s \<noteq> uid) (sessions db)\<rparr>)"

definition activeSession :: "Env \<Rightarrow> string \<Rightarrow> Session \<Rightarrow> bool" where
  "activeSession env h s = (refreshToken s = h \<and> currentDate env < expiresAt s)"

definition refreshAccessToken :: "Env \<Rightarrow> string \<Rightarrow> DB \<Rightarrow> TokenPair outcome" where
  "refreshAccessToken env rt db =
     (let hashedRefreshToken = hashData env rt
      in case find (activeSession env hashedRefreshToken) (sessions db) of
           None \<Rightarrow> (Inl (throwError ''Invalid or expired refresh token'' 500), db)
         | Some session \<Rightarrow>
             (case findUserById (userId session) db of
                None \<Rightarrow> (Inl (throwError ''User not found'' 500), db)
              | Some user \<Rightarrow>
                  andThen (revokeRefreshToken env rt db)
                    (\<lambda>_ db1. generateTokenPair env user None None db1)))"

section \<open>Verification tokens (\<open>helpers/user.ts\<close>, \<open>services/UserService.ts\<close>)\<close>

datatype unit_of_time = Minutes | Days

definition generateVerificationToken ::
  "Env \<Rightarrow> int \<Rightarrow> unit_of_time \<Rightarrow> string \<times> string \<times> date" where
  "generateVerificationToken env duration unit =
     (let token = generateRandomString env 32;
          hashed = hashData env token;
          expires = (if unit = Days then addDays env duration else addMinutes env duration)
      in (token, hashed, expires))"

text \<open>The filter of the two raw \<open>find\<close> commands: stored hash equal, stored expiry after now.\<close>

definition after_now :: "Env \<Rightarrow> date option \<Rightarrow> bool" where
  "after_now env d = (case d of None \<Rightarrow> False | Some t \<Rightarrow> currentDate env < t)"

definition matchesVerificationToken :: "Env \<Rightarrow> string \<Rightarrow> User \<Rightarrow> bool" where
  "matchesVerificationToken env h u =
     (verificationToken (emailInfo u) = Some h \<and> after_now env (verificationExpires (emailInfo u)))"

definition matchesResetToken :: "Env \<Rightarrow> string \<Rightarrow> User \<Rightarrow> bool" where
  "matchesResetToken env h u =
     (resetToken (passwordInfo u) = Some h \<and> after_now env (resetExpires (passwordInfo u)))"

definition emailTaken :: "string \<Rightarrow> string \<Rightarrow> DB \<Rightarrow> User option" where
  "emailTaken pending uid db = find (\<lambda>u. email u = pending \<and> id_user u \<noteq> uid) (users db)"

text \<open>The \<open>data\<close> of the update in \<open>verifyEmailWithToken\<close>, built from the matched document.\<close>

definition verifyEmailData :: "User \<Rightarrow> User \<Rightarrow> User" where
  "verifyEmailData userDoc u =
     (let info = emailInfo userDoc; pending = pendingEmail info
      in u\<lparr>email := (if truthy pending then the pending else email u),
           emailInfo :=
             \<lparr>isVerified = True, verificationToken = None, verificationExpires = None,
              pendingEmail = None, provider = provider info\<rparr>\<rparr>)"

definition verifyEmailWithToken :: "Env \<Rightarrow> string \<Rightarrow> DB \<Rightarrow> (User \<times> bool) outcome" where
  "verifyEmailWithToken env token db =
     (let hashedToken = hashData env token
      in case find (matchesVerificationToken env hashedToken) (users db) of
           None \<Rightarrow> (Inl (throwError ''Invalid or expired email verification token'' 403), db)
         | Some userDoc \<Rightarrow>
             (let uid = id_user userDoc;
                  info = emailInfo userDoc;
                  isNewlyVerified = (\<not> isVerified info);
                  pending = pendingEmail info
              in if truthy pending \<and> emailTaken (the pending) uid db \<noteq> None then
                   (Inl (throwError ''Email address is already in use'' 409), db)
                 else
                   andThen (user_update uid (verifyEmailData userDoc) db)
                     (\<lambda>updatedUser db'. (Inr (updatedUser, isNewlyVerified), db'))))"

definition hashPassword :: "Env \<Rightarrow> string \<Rightarrow> string" where
  "hashPassword env password = bcryptHash env password"

text \<open>The \<open>data\<close> of the update in \<open>resetPasswordWithToken\<close>, built from the matched document.\<close>

definition resetPasswordData :: "Env \<Rightarrow> string \<Rightarrow> User \<Rightarrow> User \<Rightarrow> User" where
  "resetPasswordData env newPassword userDoc u =
     (let hashedPassword = hashPassword env newPassword;
          pwInfo = passwordInfo userDoc;
          lockInfo = lockoutInfo userDoc;
          mailInfo = emailInfo userDoc;
          accountLocked = isLocked lockInfo;
          isEmailUnverified = (\<not> isVerified mailInfo)
      in u\<lparr>passwordInfo :=
             pwInfo\<lparr>hash := Some hashedPassword, resetToken := None, resetExpires := None\<rparr>,
           lockoutInfo :=
             (if accountLocked
              then lockInfo\<lparr>isLocked := False, lockedUntil := None, failedAttemptCount := 0\<rparr>
              else lockInfo),
           emailInfo :=
             (if isEmailUnverified
              then mailInfo\<lparr>isVerified := True, verificationToken := None,
                            verificationExpires := None\<rparr>
              else mailInfo)\<rparr>)"

definition resetPasswordWithToken :: "Env \<Rightarrow> string \<Rightarrow> string \<Rightarrow> DB \<Rightarrow> unit outcome" where
  "resetPasswordWithToken env token newPassword db =
     (let hashedToken = hashData env token
      in case find (matchesResetToken env hashedToken) (users db) of
           None \<Rightarrow> (Inl (throwError ''Invalid or expired password reset token'' 500), db)
         | Some userDoc \<Rightarrow>
             andThen
               (user_update (id_user userDoc) (resetPasswordData env newPassword userDoc) db)
               (\<lambda>_ db'. revokeAllUserSessions (id_user userDoc) db'))"

text \<open>
  A token is 32 random bytes, so its hash is stored on one account at a time: all documents
  that hold the hash have the same id.
\<close>

definition uniqueVerificationToken :: "string \<Rightarrow> DB \<Rightarrow> bool" where
  "uniqueVerificationToken h db =
     (\<forall>v \<in> set (users db). \<forall>w \<in> set (users db).
        verificationToken (emailInfo v) = Some h \<and> verificationToken (emailInfo w) = Some h
        \<longrightarrow> id_user v = id_user w)"

definition uniqueResetToken :: "string \<Rightarrow> DB \<Rightarrow> bool" where
  "uniqueResetToken h db =
     (\<forall>v \<in> set (users db). \<forall>w \<in> set (users db).
        resetToken (passwordInfo v) = Some h \<and> resetToken (passwordInfo w) = Some h
        \<longrightarrow> id_user v = id_user w)"

section \<open>Profile update (\<open>services/UserService.ts\<close>, \<open>services/EmailService.ts\<close>)\<close>

datatype UserExistsResult = NotExists | Exists User string

definition checkUserExists ::
  "string option \<Rightarrow> string option \<Rightarrow> string \<Rightarrow> DB \<Rightarrow> UserExistsResult" where
  "checkUserExists em ph uid db =
     (if \<not> truthy em \<and> \<not> truthy ph then NotExists
      else
        case find (\<lambda>u. ((truthy em \<and> Some (email u) = em) \<or> (truthy ph \<and> phone u = ph))
                       \<and> (uid = [] \<or> id_user u \<noteq> uid)) (users db) of
          None \<Rightarrow> NotExists
        | Some existingUser \<Rightarrow>
            Exists existingUser (if Some (email existingUser) = em then ''email'' else ''phone''))"

definition deleteUnverifiedUser :: "string \<Rightarrow> DB \<Rightarrow> unit outcome" where
  "deleteUnverifiedUser uid db =
     (let hit = (\<lambda>u. id_user u = uid \<and> \<not> isVerified (emailInfo u));
          count = length (filter hit (users db));
          db' = db\<lparr>users := filter (\<lambda>u. \<not> hit u) (users db)\<rparr>
      in if count = 0
         then (Inl (throwError ''User not found or already verified'' 404), db')
         else (Inr (), db'))"

definition sendEmail :: "Env \<Rightarrow> string \<Rightarrow> error + unit" where
  "sendEmail env to =
     (if sendMail env to then Inr () else Inl (throwError ''Failed to send email'' 500))"

definition sendEmailVerification :: "Env \<Rightarrow> string \<Rightarrow> error + unit" where
  "sendEmailVerification env to =
     (if renderTemplate env ''email-verification'' then sendEmail env to else Inl TemplateError)"

record UpdateUserProfile =
  fullname_upd :: "string option"
  email_upd :: "string option"
  phone_upd :: "string option"
  password_upd :: "string option"
  redirectUrl_upd :: "string option"

definition conflictCheck :: "User \<Rightarrow> UpdateUserProfile \<Rightarrow> DB \<Rightarrow> unit outcome" where
  "conflictCheck user updates db =
     (if truthy (email_upd updates) \<or> truthy (phone_upd updates) then
        (case checkUserExists (email_upd updates) (phone_upd updates) (id_user user) db of
           NotExists \<Rightarrow> (Inr (), db)
         | Exists existingUser field \<Rightarrow>
             if isVerified (emailInfo existingUser) then
               (Inl (throwError
                  (if field = ''email'' then ''Email is already taken''
                   else ''Phone number is already taken'') 409), db)
             else deleteUnverifiedUser (id_user existingUser) db)
      else (Inr (), db))"

definition emailChange :: "Env \<Rightarrow> User \<Rightarrow> string \<Rightarrow> DB \<Rightarrow> string outcome" where
  "emailChange env user newEmail db =
     (case generateVerificationToken env 1 Days of
        (token, hashed, expires) \<Rightarrow>
          (case andThen
                  (user_update (id_user user)
                     (\<lambda>u. u\<lparr>emailInfo :=
                        (emailInfo user)\<lparr>pendingEmail := Some newEmail,
                                         verificationToken := Some hashed,
                                         verificationExpires := Some expires\<rparr>\<rparr>) db)
                  (\<lambda>_ db1. (sendEmailVerification env newEmail, db1)) of
             (Inr _, db1) \<Rightarrow>
               (Inr ''Profile updated. Verification email sent to your new email address. Please verify to complete the email change.'',
                db1)
           | (Inl err, db1) \<Rightarrow>
               andThen
                 (user_update (id_user user)
                    (\<lambda>u. u\<lparr>emailInfo :=
                       (emailInfo user)\<lparr>pendingEmail := None, verificationToken := None,
                                        verificationExpires := None\<rparr>\<rparr>) db1)
                 (\<lambda>_ db2. (Inl err, db2))))"

definition updateUserProfile ::
  "Env \<Rightarrow> User \<Rightarrow> UpdateUserProfile \<Rightarrow> DB \<Rightarrow> (User \<times> string) outcome" where
  "updateUserProfile env user updates db =
     andThen (conflictCheck user updates db)
       (\<lambda>_ db1.
          andThen
            (if truthy (email_upd updates) \<and> email_upd updates \<noteq> Some (email user)
             then emailChange env user (the (email_upd updates)) db1
             else (Inr ''Profile updated successfully'', db1))
            (\<lambda>message db2.
               let setName = truthy (fullname_upd updates);
                   setPassword = truthy (password_upd updates);
                   message' = (if setPassword then ''Password updated successfully'' else message)
               in if setName \<or> setPassword then
                    andThen
                      (user_update (id_user user)
                         (\<lambda>u. u\<lparr>fullname :=
                                   (if setName then the (fullname_upd updates) else fullname u),
                                 passwordInfo :=
                                   (if setPassword
                                    then (passwordInfo user)
                                           \<lparr>hash := Some (hashPassword env (the (password_upd updates)))\<rparr>
                                    else passwordInfo u)\<rparr>) db2)
                      (\<lambda>updatedUser db3. (Inr (updatedUser, message'), db3))
                  else (Inr (user, message'), db2)))"

section \<open>OAuth accounts (\<open>services/OauthService.ts\<close>)\<close>

definition GITHUB_EMAIL_API :: string where
  "GITHUB_EMAIL_API = ''https://api.github.com/user/emails''"

record IOAuthUser =
  email_oauth :: string
  displayName_oauth :: string
  avatarUrl_oauth :: "string option"
  provider_oauth :: string
  isVerified_oauth :: bool

record GitHubProfile =
  emails :: "string list option"
  photos :: "string list option"
  displayName :: "string option"
  username :: "string option"

text \<open>\<open>xs?.[0]?.value\<close> on an optional array of \<open>{value}\<close> objects.\<close>

definition firstValue :: "string list option \<Rightarrow> string option" where
  "firstValue xs = (case xs of None \<Rightarrow> None | Some [] \<Rightarrow> None | Some (v # _) \<Rightarrow> Some v)"

definition createOAuthUser :: "Env \<Rightarrow> IOAuthUser \<Rightarrow> DB \<Rightarrow> User outcome" where
  "createOAuthUser env oauthUser db =
     (case findUserByEmail (email_oauth oauthUser) db of
        Some existingUser \<Rightarrow> (Inr existingUser, db)
      | None \<Rightarrow>
          (let newUser =
                 \<lparr>id_user = newObjectId env, fullname = displayName_oauth oauthUser,
                  email = email_oauth oauthUser, phone = None,
                  profileImage = orNull (avatarUrl_oauth oauthUser),
                  emailInfo =
                    \<lparr>isVerified = True, verificationToken = None, verificationExpires = None,
                     pendingEmail = None, provider = orNull (Some (provider_oauth oauthUser))\<rparr>,
                  passwordInfo = \<lparr>hash = None, resetToken = None, resetExpires = None\<rparr>,
                  lockoutInfo = \<lparr>isLocked = False, lockedUntil = None, failedAttemptCount = 0\<rparr>,
                  isActive = True, lastLoginAt = Some (currentDate env)\<rparr>
           in (Inr newUser, db\<lparr>users := users db @ [newUser]\<rparr>)))"

text \<open>
  The \<open>try\<close> block of \<open>handleGithubAuth\<close>: \<open>None\<close> when anything in it throws (the
  request is rejected, the response is not OK, the body is not a JSON array), otherwise the
  address it selects (\<open>emails.find((e) => e.primary)?.email ?? emails[0]?.email\<close>), which
  can still be undefined.
\<close>

definition selectEmail :: "GithubEmail list \<Rightarrow> string option" where
  "selectEmail list =
     (case find primary list of
        Some e \<Rightarrow> Some (email_gh e)
      | None \<Rightarrow> (case list of [] \<Rightarrow> None | e # _ \<Rightarrow> Some (email_gh e)))"

definition fetchGithubEmail :: "Env \<Rightarrow> string \<Rightarrow> string option option" where
  "fetchGithubEmail env token =
     (case fetch env GITHUB_EMAIL_API (''token '' @ token) of
        FetchRejected \<Rightarrow> None
      | Response ok status body \<Rightarrow>
          if \<not> ok then None
          else (case body of None \<Rightarrow> None | Some list \<Rightarrow> Some (selectEmail list)))"

definition firstTruthy :: "string option \<Rightarrow> string option \<Rightarrow> string option" where
  "firstTruthy a b = (if truthy a then a else b)"

definition githubUser :: "Env \<Rightarrow> GitHubProfile \<Rightarrow> string option \<Rightarrow> DB \<Rightarrow> User outcome" where
  "githubUser env profile em db =
     (if \<not> truthy em then (Inl (throwError ''No email found for GitHub user'' 404), db)
      else
        (let name = firstTruthy (displayName profile) (username profile)
         in if \<not> truthy name then
              (Inl (throwError ''No display name found in GitHub profile'' 400), db)
            else
              createOAuthUser env
                \<lparr>email_oauth = the em, displayName_oauth = the name,
                 avatarUrl_oauth = orNull (firstValue (photos profile)),
                 provider_oauth = ''github'', isVerified_oauth = True\<rparr> db))"

definition handleGithubAuth :: "Env \<Rightarrow> GitHubProfile \<Rightarrow> string \<Rightarrow> DB \<Rightarrow> User outcome" where
  "handleGithubAuth env profile token db =
     (let em = firstValue (emails profile)
      in if \<not> truthy em then
           (case fetchGithubEmail env token of
              None \<Rightarrow> (Inl (throwError ''Unable to retrieve user email from GitHub'' 400), db)
            | Some fetched \<Rightarrow> githubUser env profile fetched db)
         else githubUser env profile em db)"

section \<open>Fixtures for the concrete instances\<close>

definition env0 :: Env where
  "env0 = \<lparr>now = 1000, addCalendarDays = (\<lambda>t n. t + n * 86400000),
           maxLoginAttempts = 5, loginLockTime = 15, refreshExpiresIn = 7,
           expiresIn = ''15m'', hashData = (\<lambda>s. CHR ''#'' # s),
           generateRandomString = (\<lambda>n. replicate (2 * n) CHR ''a''),
           bcryptHash = (\<lambda>p. CHR ''$'' # p),
           bcryptCompare = (\<lambda>input h. h = CHR ''$'' # input),
           jwtSign = (\<lambda>uid em. uid @ ''.'' @ em),
           jwtVerify = (\<lambda>t. if t = ''expired'' then Thrown TokenExpiredError
                             else if t = ''early'' then Thrown NotBeforeError
                             else if t = ''garbage'' then Thrown OtherThrown
                             else Thrown (JsonWebTokenError ''jwt malformed'')),
           renderTemplate = (\<lambda>name. True),
           sendMail = (\<lambda>to. False),
           fetch = (\<lambda>url auth. Response True 200 (Some [])),
           newObjectId = ''id9''\<rparr>"

definition user0 :: User where
  "user0 = \<lparr>id_user = ''u1'', fullname = ''Jane'', email = ''jane@x.com'', phone = None,
            profileImage = None,
            emailInfo = \<lparr>isVerified = True, verificationToken = None,
                         verificationExpires = None, pendingEmail = None, provider = None\<rparr>,
            passwordInfo = \<lparr>hash = Some ''$pw'', resetToken = None, resetExpires = None\<rparr>,
            lockoutInfo = \<lparr>isLocked = False, lockedUntil = None, failedAttemptCount = 0\<rparr>,
            isActive = True, lastLoginAt = None\<rparr>"

definition db0 :: DB where
  "db0 = \<lparr>users = [user0], sessions = []\<rparr>"

definition lockedUser :: User where
  "lockedUser = user0\<lparr>lockoutInfo :=
     \<lparr>isLocked = True, lockedUntil = Some 900, failedAttemptCount = 5\<rparr>\<rparr>"

definition dbLocked :: DB where
  "dbLocked = \<lparr>users = [lockedUser], sessions = []\<rparr>"

text \<open>
  A locked, unverified account with a pending reset token and two sessions, next to a
  session of another account; and the same account unlocked with three failed attempts.
\<close>

definition userD :: User where
  "userD = user0\<lparr>emailInfo :=
               \<lparr>isVerified = False, verificationToken = Some ''#vtok'',
                verificationExpires = Some 2000, pendingEmail = None, provider = None\<rparr>,
             passwordInfo :=
               \<lparr>hash = Some ''$pw'', resetToken = Some ''#tok'', resetExpires = Some 2000\<rparr>,
             lockoutInfo :=
               \<lparr>isLocked = True, lockedUntil = Some 5000, failedAttemptCount = 5\<rparr>\<rparr>"

definition session1 :: Session where
  "session1 = \<lparr>userId = ''u1'', refreshToken = ''#r1'', userAgent = None, ipAddress = None,
               expiresAt = 3000\<rparr>"

definition session2 :: Session where
  "session2 = \<lparr>userId = ''u2'', refreshToken = ''#r2'', userAgent = None, ipAddress = None,
               expiresAt = 3000\<rparr>"

definition session3 :: Session where
  "session3 = \<lparr>userId = ''u1'', refreshToken = ''#r3'', userAgent = Some ''curl'',
               ipAddress = None, expiresAt = 500\<rparr>"

definition dbD :: DB where
  "dbD = \<lparr>users = [userD], sessions = [session1, session2, session3]\<rparr>"

definition userThree :: User where
  "userThree = user0\<lparr>passwordInfo :=
                   \<lparr>hash = Some ''$pw'', resetToken = Some ''#tok'', resetExpires = Some 2000\<rparr>,
                 lockoutInfo :=
                   \<lparr>isLocked = False, lockedUntil = None, failedAttemptCount = 3\<rparr>\<rparr>"

definition dbThree :: DB where
  "dbThree = \<lparr>users = [userThree], sessions = [session1]\<rparr>"

definition profileNoEmail :: GitHubProfile where
  "profileNoEmail = \<lparr>emails = None, photos = None, displayName = Some ''GitHub User'',
                     username = Some ''githubuser''\<rparr>"

definition emailUpdate :: UpdateUserProfile where
  "emailUpdate = \<lparr>fullname_upd = None, email_upd = Some ''new@x.com'', phone_upd = None,
                  password_upd = None, redirectUrl_upd = Some ''https://x''\<rparr>"

definition githubEmails :: "GithubEmail list" where
  "githubEmails = [\<lparr>email_gh = ''second@x.com'', primary = False, verified = True\<rparr>,
                   \<lparr>email_gh = ''primary@example.com'', primary = True, verified = True\<rparr>]"

definition envGithub :: Env where
  "envGithub = env0\<lparr>fetch := (\<lambda>url auth.
      if url = ''https://api.github.com/user/emails'' \<and> auth = ''token gho_abc''
      then Response True 200 (Some githubEmails) else FetchRejected)\<rparr>"

section \<open>Storage lemmas\<close>

lemma find_map_by_id:
  assumes "\<And>v. id_user (f v) = id_user v"
  shows "find (\<lambda>u. id_user u = i) (map (\<lambda>v. if id_user v = i then f v else v) us)
         = map_option f (find (\<lambda>u. id_user u = i) us)"
  using assms by (induction us) auto

lemma user_update_found:
  assumes "findUserById i db = Some u"
  shows "user_update i f db
         = (Inr (f u), db\<lparr>users := map (\<lambda>v. if id_user v = i then f v else v) (users db)\<rparr>)"
  using assms by (simp add: user_update_def)

lemma user_update_lookup:
  assumes "findUserById i db = Some u" and "\<And>v. id_user (f v) = id_user v"
  shows "findUserById i (snd (user_update i f db)) = Some (f u)"
  using assms find_map_by_id [of f i "users db"]
  by (simp add: user_update_found) (simp add: findUserById_def)

lemma findUserByEmail_has_id:
  assumes "findUserByEmail e db = Some u"
  shows "\<exists>v. findUserById (id_user u) db = Some v"
proof -
  from assms have "u \<in> set (users db)"
    by (auto simp: findUserByEmail_def find_Some_iff)
  then have "find (\<lambda>v. id_user v = id_user u) (users db) \<noteq> None"
    by (auto simp: find_None_iff)
  then show ?thesis by (auto simp: findUserById_def)
qed

lemma incrementFailedLoginAttempts_found:
  assumes "findUserById (id_user user) db = Some stored"
  shows "fst (incrementFailedLoginAttempts env user db) = Inr ()"
    and "map_option lockoutInfo
           (findUserById (id_user user) (snd (incrementFailedLoginAttempts env user db)))
         = Some \<lparr>isLocked = (maxLoginAttempts env \<le> int (failedAttemptCount (lockoutInfo user) + 1)),
                 lockedUntil =
                   (if maxLoginAttempts env \<le> int (failedAttemptCount (lockoutInfo user) + 1)
                    then Some (now env + loginLockTime env * 60000) else None),
                 failedAttemptCount = failedAttemptCount (lockoutInfo user) + 1\<rparr>"
proof -
  let ?f = "\<lambda>u. u\<lparr>lockoutInfo :=
                 \<lparr>isLocked = (int (failedAttemptCount (lockoutInfo user) + 1) \<ge> maxLoginAttempts env),
                  lockedUntil =
                    (if int (failedAttemptCount (lockoutInfo user) + 1) \<ge> maxLoginAttempts env
                     then Some (addMinutes env (loginLockTime env)) else None),
                  failedAttemptCount = failedAttemptCount (lockoutInfo user) + 1\<rparr>\<rparr>"
  have upd: "incrementFailedLoginAttempts env user db
             = (Inr (), snd (user_update (id_user user) ?f db))"
    using assms
    by (simp add: incrementFailedLoginAttempts_def Let_def andThen_def user_update_found)
  show "fst (incrementFailedLoginAttempts env user db) = Inr ()"
    by (simp add: upd)
  have "findUserById (id_user user) (snd (user_update (id_user user) ?f db)) = Some (?f stored)"
    using assms by (rule user_update_lookup) simp
  then show "map_option lockoutInfo
           (findUserById (id_user user) (snd (incrementFailedLoginAttempts env user db)))
         = Some \<lparr>isLocked = (maxLoginAttempts env \<le> int (failedAttemptCount (lockoutInfo user) + 1)),
                 lockedUntil =
                   (if maxLoginAttempts env \<le> int (failedAttemptCount (lockoutInfo user) + 1)
                    then Some (now env + loginLockTime env * 60000) else None),
                 failedAttemptCount = failedAttemptCount (lockoutInfo user) + 1\<rparr>"
    by (simp add: upd addMinutes_def)
qed

section \<open>Properties\<close>

text \<open>
  C3. For every lockout state and every instant, \<open>isAccountLocked\<close> is true exactly when
  the \<open>isLocked\<close> flag is set, \<open>lockedUntil\<close> is present and \<open>lockedUntil\<close> is after
  now; so once now has passed \<open>lockedUntil\<close> it is false, also for an account whose
  stored flag is still true.
\<close>

theorem isAccountLocked_iff:
  "(isAccountLocked env user \<longleftrightarrow>
      isLocked (lockoutInfo user) \<and>
      (\<exists>t. lockedUntil (lockoutInfo user) = Some t \<and> now env < t))
   \<and> (\<forall>t. isLocked (lockoutInfo user) \<and> lockedUntil (lockoutInfo user) = Some t
            \<and> t < now env \<longrightarrow> \<not> isAccountLocked env user)"
  by (auto simp: isAccountLocked_def currentDate_def split: option.splits)

theorem isAccountLocked_iff_witness:
  "isLocked (lockoutInfo (user0\<lparr>lockoutInfo :=
       \<lparr>isLocked = True, lockedUntil = Some 900, failedAttemptCount = 5\<rparr>\<rparr>))
   \<and> (900::int) < now env0
   \<and> \<not> isAccountLocked env0 (user0\<lparr>lockoutInfo :=
       \<lparr>isLocked = True, lockedUntil = Some 900, failedAttemptCount = 5\<rparr>\<rparr>)
   \<and> isAccountLocked env0 (user0\<lparr>lockoutInfo :=
       \<lparr>isLocked = True, lockedUntil = Some 1001, failedAttemptCount = 5\<rparr>\<rparr>)"
  using isAccountLocked_iff [of env0 "user0\<lparr>lockoutInfo :=
       \<lparr>isLocked = True, lockedUntil = Some 900, failedAttemptCount = 5\<rparr>\<rparr>"]
    isAccountLocked_iff [of env0 "user0\<lparr>lockoutInfo :=
       \<lparr>isLocked = True, lockedUntil = Some 1001, failedAttemptCount = 5\<rparr>\<rparr>"]
  by (simp add: env0_def user0_def)


text \<open>
  C4. Recording a failed login attempt stores \<open>failedAttemptCount\<close> plus one; when the
  new count is at least \<open>maxLoginAttempts\<close> the stored state has \<open>isLocked = true\<close> and
  \<open>lockedUntil = now + loginLockTime\<close> minutes, otherwise \<open>isLocked = false\<close>. With
  \<open>maxLoginAttempts = 5\<close>, four consecutive wrong passwords leave the account unlocked
  with a count of four and the fifth locks it.
\<close>

theorem incrementFailedLoginAttempts_lockout:
  assumes "findUserById (id_user user) db = Some user"
  shows "fst (incrementFailedLoginAttempts env user db) = Inr ()
     \<and> map_option lockoutInfo
         (findUserById (id_user user) (snd (incrementFailedLoginAttempts env user db)))
       = Some \<lparr>isLocked = (maxLoginAttempts env \<le> int (failedAttemptCount (lockoutInfo user) + 1)),
               lockedUntil =
                 (if maxLoginAttempts env \<le> int (failedAttemptCount (lockoutInfo user) + 1)
                  then Some (now env + loginLockTime env * 60000) else None),
               failedAttemptCount = failedAttemptCount (lockoutInfo user) + 1\<rparr>
     \<and> map_option lockoutInfo
         (findUserById ''u1'' (loginAttempts 4 env0 ''jane@x.com'' ''wrong'' db0))
       = Some \<lparr>isLocked = False, lockedUntil = None, failedAttemptCount = 4\<rparr>
     \<and> map_option lockoutInfo
         (findUserById ''u1'' (loginAttempts 5 env0 ''jane@x.com'' ''wrong'' db0))
       = Some \<lparr>isLocked = True, lockedUntil = Some (1000 + 15 * 60000), failedAttemptCount = 5\<rparr>"
proof -
  have four: "map_option lockoutInfo
         (findUserById ''u1'' (loginAttempts 4 env0 ''jane@x.com'' ''wrong'' db0))
       = Some \<lparr>isLocked = False, lockedUntil = None, failedAttemptCount = 4\<rparr>"
    by code_simp
  have five: "map_option lockoutInfo
         (findUserById ''u1'' (loginAttempts 5 env0 ''jane@x.com'' ''wrong'' db0))
       = Some \<lparr>isLocked = True, lockedUntil = Some (1000 + 15 * 60000), failedAttemptCount = 5\<rparr>"
    by code_simp
  from incrementFailedLoginAttempts_found [OF assms, of env] four five
  show ?thesis by simp
qed

theorem incrementFailedLoginAttempts_lockout_witness:
  "findUserById (id_user user0) db0 = Some user0
   \<and> fst (incrementFailedLoginAttempts env0 user0 db0) = Inr ()
   \<and> map_option lockoutInfo
       (findUserById (id_user user0) (snd (incrementFailedLoginAttempts env0 user0 db0)))
     = Some \<lparr>isLocked = False, lockedUntil = None, failedAttemptCount = 1\<rparr>"
proof -
  have h: "findUserById (id_user user0) db0 = Some user0"
    by (simp add: findUserById_def db0_def user0_def)
  from incrementFailedLoginAttempts_lockout [OF h, of env0] h
  show ?thesis by (simp add: env0_def user0_def)
qed

text \<open>
  C10. The expiry of a lock does not reset the counter. For an account whose
  \<open>failedAttemptCount\<close> has reached \<open>maxLoginAttempts\<close> and whose \<open>lockedUntil\<close> has
  passed, \<open>isAccountLocked\<close> is false, so a password login goes on to compare the password;
  one more wrong password makes \<open>incrementFailedLoginAttempts\<close> store \<open>isLocked = true\<close>
  with \<open>lockedUntil = now + loginLockTime\<close> minutes, which lies in the future for a positive
  lock time.
\<close>

theorem lock_expiry_keeps_counter:
  assumes "findUserByEmail em db = Some user"
    and "isVerified (emailInfo user)"
    and "\<not> (truthy (provider (emailInfo user)) \<and> \<not> truthy (hash (passwordInfo user)))"
    and "maxLoginAttempts env \<le> int (failedAttemptCount (lockoutInfo user))"
    and "lockedUntil (lockoutInfo user) = Some t" and "t < now env"
    and "\<not> comparePassword env (hash (passwordInfo user)) password"
    and "0 < loginLockTime env"
  shows "\<not> isAccountLocked env user
     \<and> fst (authenticateUser env em password db) = Inr (Some user, False)
     \<and> snd (authenticateUser env em password db) = snd (incrementFailedLoginAttempts env user db)
     \<and> map_option lockoutInfo
         (findUserById (id_user user) (snd (incrementFailedLoginAttempts env user db)))
       = Some \<lparr>isLocked = True,
               lockedUntil = Some (now env + loginLockTime env * 60000),
               failedAttemptCount = failedAttemptCount (lockoutInfo user) + 1\<rparr>
     \<and> now env < now env + loginLockTime env * 60000"
proof -
  from assms(1) obtain stored where st: "findUserById (id_user user) db = Some stored"
    using findUserByEmail_has_id by blast
  have nl: "\<not> isAccountLocked env user"
    using assms(5,6) by (simp add: isAccountLocked_def currentDate_def)
  have inc: "fst (incrementFailedLoginAttempts env user db) = Inr ()"
    by (rule incrementFailedLoginAttempts_found(1) [OF st])
  have auth: "authenticateUser env em password db
      = andThen (incrementFailedLoginAttempts env user db) (\<lambda>_ db1. (Inr (Some user, False), db1))"
    using assms(1,2,3,7) nl by (auto simp: authenticateUser_def)
  have a1: "fst (authenticateUser env em password db) = Inr (Some user, False)"
    and a2: "snd (authenticateUser env em password db) = snd (incrementFailedLoginAttempts env user db)"
    using inc unfolding auth andThen_def
    by (cases "incrementFailedLoginAttempts env user db"; simp)+
  have lk: "map_option lockoutInfo
         (findUserById (id_user user) (snd (incrementFailedLoginAttempts env user db)))
       = Some \<lparr>isLocked = True,
               lockedUntil = Some (now env + loginLockTime env * 60000),
               failedAttemptCount = failedAttemptCount (lockoutInfo user) + 1\<rparr>"
    using incrementFailedLoginAttempts_found(2) [OF st, of env] assms(4) by simp
  show ?thesis using nl a1 a2 lk assms(8) by simp
qed

theorem lock_expiry_keeps_counter_witness:
  "findUserByEmail ''jane@x.com'' dbLocked = Some lockedUser
   \<and> isLocked (lockoutInfo lockedUser)
   \<and> \<not> isAccountLocked env0 lockedUser
   \<and> fst (authenticateUser env0 ''jane@x.com'' ''wrong'' dbLocked) = Inr (Some lockedUser, False)
   \<and> map_option lockoutInfo
       (findUserById ''u1'' (snd (authenticateUser env0 ''jane@x.com'' ''wrong'' dbLocked)))
     = Some \<lparr>isLocked = True, lockedUntil = Some 901000, failedAttemptCount = 6\<rparr>"
proof -
  have h1: "findUserByEmail ''jane@x.com'' dbLocked = Some lockedUser"
    by (simp add: findUserByEmail_def dbLocked_def lockedUser_def user0_def)
  have h2: "isVerified (emailInfo lockedUser)"
    by (simp add: lockedUser_def user0_def)
  have h3: "\<not> (truthy (provider (emailInfo lockedUser))
              \<and> \<not> truthy (hash (passwordInfo lockedUser)))"
    by (simp add: lockedUser_def user0_def truthy_def)
  have h4: "maxLoginAttempts env0 \<le> int (failedAttemptCount (lockoutInfo lockedUser))"
    by (simp add: lockedUser_def user0_def env0_def)
  have h5: "lockedUntil (lockoutInfo lockedUser) = Some 900"
    by (simp add: lockedUser_def user0_def)
  have h6: "(900::int) < now env0"
    by (simp add: env0_def)
  have h7: "\<not> comparePassword env0 (hash (passwordInfo lockedUser)) ''wrong''"
    by (simp add: comparePassword_def lockedUser_def user0_def env0_def)
  have h8: "0 < loginLockTime env0"
    by (simp add: env0_def)
  from lock_expiry_keeps_counter [OF h1 h2 h3 h4 h5 h6 h7 h8] h1
  show ?thesis by (simp add: lockedUser_def user0_def env0_def)
qed

section \<open>Lemmas on the token workflows\<close>

lemma find_by_id_distinct:
  "distinct (map id_user us) \<Longrightarrow> u \<in> set us \<Longrightarrow> find (\<lambda>v. id_user v = id_user u) us = Some u"
  by (induction us) (auto simp: rev_image_eqI)

lemma find_Some_mem: "find P xs = Some x \<Longrightarrow> x \<in> set xs \<and> P x"
  by (auto simp: find_Some_iff)

lemma member_has_id:
  assumes "u \<in> set (users db)"
  shows "\<exists>v. findUserById (id_user u) db = Some v"
proof -
  from assms have "find (\<lambda>v. id_user v = id_user u) (users db) \<noteq> None"
    by (auto simp: find_None_iff)
  then show ?thesis by (auto simp: findUserById_def)
qed

lemma resetPasswordWithToken_matched:
  assumes "find (matchesResetToken env (hashData env token)) (users db) = Some userDoc"
  shows "\<exists>stored. findUserById (id_user userDoc) db = Some stored \<and>
     resetPasswordWithToken env token newPassword db
       = (Inr (),
          \<lparr>users = map (\<lambda>v. if id_user v = id_user userDoc
                             then resetPasswordData env newPassword userDoc v else v) (users db),
           sessions = filter (\<lambda>s. userId s \<noteq> id_user userDoc) (sessions db)\<rparr>)"
proof -
  from assms have "userDoc \<in> set (users db)" by (auto dest: find_Some_mem)
  then obtain stored where st: "findUserById (id_user userDoc) db = Some stored"
    using member_has_id by blast
  show ?thesis
    using assms st
    by (simp add: resetPasswordWithToken_def Let_def user_update_found andThen_def
        revokeAllUserSessions_def)
qed

lemma resetPasswordWithToken_unmatched:
  assumes "find (matchesResetToken env (hashData env token)) (users db) = None"
  shows "resetPasswordWithToken env token newPassword db
       = (Inl (AppError ''Invalid or expired password reset token'' 500), db)"
  using assms by (simp add: resetPasswordWithToken_def throwError_def)

lemma resetPasswordData_id: "id_user (resetPasswordData env pw userDoc v) = id_user v"
  by (simp add: resetPasswordData_def Let_def)

lemma resetPasswordData_cleared:
  "resetToken (passwordInfo (resetPasswordData env pw userDoc v)) = None"
  "resetExpires (passwordInfo (resetPasswordData env pw userDoc v)) = None"
  "hash (passwordInfo (resetPasswordData env pw userDoc v)) = Some (hashPassword env pw)"
  by (simp_all add: resetPasswordData_def Let_def)

lemma resetPasswordWithToken_stored:
  assumes "find (matchesResetToken env (hashData env token)) (users db) = Some userDoc"
  shows "\<exists>stored. findUserById (id_user userDoc) db = Some stored \<and>
     findUserById (id_user userDoc) (snd (resetPasswordWithToken env token newPassword db))
       = Some (resetPasswordData env newPassword userDoc stored)"
proof -
  from resetPasswordWithToken_matched [OF assms, of newPassword]
  obtain stored where st: "findUserById (id_user userDoc) db = Some stored"
    and r: "resetPasswordWithToken env token newPassword db
       = (Inr (),
          \<lparr>users = map (\<lambda>v. if id_user v = id_user userDoc
                             then resetPasswordData env newPassword userDoc v else v) (users db),
           sessions = filter (\<lambda>s. userId s \<noteq> id_user userDoc) (sessions db)\<rparr>)"
    by blast
  from find_map_by_id [of "resetPasswordData env newPassword userDoc" "id_user userDoc" "users db",
      OF resetPasswordData_id]
  show ?thesis using st by (simp add: r findUserById_def)
qed

lemma verifyEmailWithToken_unmatched:
  assumes "find (matchesVerificationToken env (hashData env token)) (users db) = None"
  shows "verifyEmailWithToken env token db
       = (Inl (AppError ''Invalid or expired email verification token'' 403), db)"
  using assms by (simp add: verifyEmailWithToken_def throwError_def)

lemma verifyEmailWithToken_success:
  assumes "fst (verifyEmailWithToken env token db) = Inr r"
  shows "\<exists>userDoc stored.
     find (matchesVerificationToken env (hashData env token)) (users db) = Some userDoc
     \<and> findUserById (id_user userDoc) db = Some stored
     \<and> verifyEmailWithToken env token db
       = (Inr (verifyEmailData userDoc stored, \<not> isVerified (emailInfo userDoc)),
          db\<lparr>users := map (\<lambda>v. if id_user v = id_user userDoc
                             then verifyEmailData userDoc v else v) (users db)\<rparr>)"
proof (cases "find (matchesVerificationToken env (hashData env token)) (users db)")
  case None
  with assms show ?thesis by (simp add: verifyEmailWithToken_unmatched)
next
  case (Some userDoc)
  then have "userDoc \<in> set (users db)" by (auto dest: find_Some_mem)
  then obtain stored where st: "findUserById (id_user userDoc) db = Some stored"
    using member_has_id by blast
  have free: "\<not> (truthy (pendingEmail (emailInfo userDoc))
        \<and> emailTaken (the (pendingEmail (emailInfo userDoc))) (id_user userDoc) db \<noteq> None)"
    using assms Some by (auto simp: verifyEmailWithToken_def Let_def split: if_splits)
  have "verifyEmailWithToken env token db
       = (Inr (verifyEmailData userDoc stored, \<not> isVerified (emailInfo userDoc)),
          db\<lparr>users := map (\<lambda>v. if id_user v = id_user userDoc
                             then verifyEmailData userDoc v else v) (users db)\<rparr>)"
    using Some st free
    by (auto simp: verifyEmailWithToken_def Let_def user_update_found andThen_def)
  with Some st show ?thesis by blast
qed

lemma verifyEmailData_cleared:
  "verificationToken (emailInfo (verifyEmailData userDoc v)) = None"
  "verificationExpires (emailInfo (verifyEmailData userDoc v)) = None"
  "isVerified (emailInfo (verifyEmailData userDoc v))"
  by (simp_all add: verifyEmailData_def Let_def)

lemma verify_second_use:
  assumes "fst (verifyEmailWithToken env token db) = Inr r"
    and "uniqueVerificationToken (hashData env token) db"
    and "hashData env' = hashData env"
  shows "verifyEmailWithToken env' token (snd (verifyEmailWithToken env token db))
       = (Inl (AppError ''Invalid or expired email verification token'' 403),
          snd (verifyEmailWithToken env token db))"
proof -
  from verifyEmailWithToken_success [OF assms(1)]
  obtain userDoc stored where
    m: "find (matchesVerificationToken env (hashData env token)) (users db) = Some userDoc"
    and r: "verifyEmailWithToken env token db
       = (Inr (verifyEmailData userDoc stored, \<not> isVerified (emailInfo userDoc)),
          db\<lparr>users := map (\<lambda>v. if id_user v = id_user userDoc
                             then verifyEmailData userDoc v else v) (users db)\<rparr>)"
    by blast
  from m have doc: "userDoc \<in> set (users db)"
    "verificationToken (emailInfo userDoc) = Some (hashData env token)"
    by (auto dest: find_Some_mem simp: matchesVerificationToken_def)
  have "\<not> matchesVerificationToken env' (hashData env token) w"
    if "w \<in> set (map (\<lambda>v. if id_user v = id_user userDoc
                             then verifyEmailData userDoc v else v) (users db))" for w
  proof -
    from that obtain v where v: "v \<in> set (users db)"
      "w = (if id_user v = id_user userDoc then verifyEmailData userDoc v else v)"
      by auto
    show ?thesis
    proof (cases "id_user v = id_user userDoc")
      case True
      with v show ?thesis
        by (simp add: matchesVerificationToken_def verifyEmailData_cleared)
    next
      case False
      with assms(2) doc v have "verificationToken (emailInfo v) \<noteq> Some (hashData env token)"
        unfolding uniqueVerificationToken_def by blast
      with v False show ?thesis by (simp add: matchesVerificationToken_def)
    qed
  qed
  then have "find (matchesVerificationToken env' (hashData env token))
               (map (\<lambda>v. if id_user v = id_user userDoc
                             then verifyEmailData userDoc v else v) (users db)) = None"
    unfolding find_None_iff by blast
  then have "find (matchesVerificationToken env' (hashData env' token))
               (users (snd (verifyEmailWithToken env token db))) = None"
    by (simp add: r assms(3))
  then show ?thesis by (rule verifyEmailWithToken_unmatched)
qed

lemma reset_second_use:
  assumes "fst (resetPasswordWithToken env token pw db) = Inr ()"
    and "uniqueResetToken (hashData env token) db"
    and "hashData env' = hashData env"
  shows "resetPasswordWithToken env' token pw' (snd (resetPasswordWithToken env token pw db))
       = (Inl (AppError ''Invalid or expired password reset token'' 500),
          snd (resetPasswordWithToken env token pw db))"
proof -
  from assms(1) obtain userDoc where
    m: "find (matchesResetToken env (hashData env token)) (users db) = Some userDoc"
    by (cases "find (matchesResetToken env (hashData env token)) (users db)")
       (auto simp: resetPasswordWithToken_unmatched)
  from resetPasswordWithToken_matched [OF m, of pw]
  have r: "resetPasswordWithToken env token pw db
       = (Inr (),
          \<lparr>users = map (\<lambda>v. if id_user v = id_user userDoc
                             then resetPasswordData env pw userDoc v else v) (users db),
           sessions = filter (\<lambda>s. userId s \<noteq> id_user userDoc) (sessions db)\<rparr>)"
    by blast
  from m have doc: "userDoc \<in> set (users db)"
    "resetToken (passwordInfo userDoc) = Some (hashData env token)"
    by (auto dest: find_Some_mem simp: matchesResetToken_def)
  have "\<not> matchesResetToken env' (hashData env token) w"
    if "w \<in> set (map (\<lambda>v. if id_user v = id_user userDoc
                             then resetPasswordData env pw userDoc v else v) (users db))" for w
  proof -
    from that obtain v where v: "v \<in> set (users db)"
      "w = (if id_user v = id_user userDoc then resetPasswordData env pw userDoc v else v)"
      by auto
    show ?thesis
    proof (cases "id_user v = id_user userDoc")
      case True
      with v show ?thesis
        by (simp add: matchesResetToken_def resetPasswordData_cleared)
    next
      case False
      with assms(2) doc v have "resetToken (passwordInfo v) \<noteq> Some (hashData env token)"
        unfolding uniqueResetToken_def by blast
      with v False show ?thesis by (simp add: matchesResetToken_def)
    qed
  qed
  then have "find (matchesResetToken env' (hashData env token))
               (map (\<lambda>v. if id_user v = id_user userDoc
                             then resetPasswordData env pw userDoc v else v) (users db)) = None"
    unfolding find_None_iff by blast
  then have "find (matchesResetToken env' (hashData env' token))
               (users (snd (resetPasswordWithToken env token pw db))) = None"
    by (simp add: r assms(3))
  then show ?thesis by (rule resetPasswordWithToken_unmatched)
qed

lemma authenticateUser_success:
  assumes "distinct (map id_user (users db))"
    and "fst (authenticateUser env em password db) = Inr (Some user, True)"
  shows "map_option (failedAttemptCount \<circ> lockoutInfo)
           (findUserById (id_user user) (snd (authenticateUser env em password db))) = Some 0"
proof -
  from assms(2) obtain found where f: "findUserByEmail em db = Some found"
    by (cases "findUserByEmail em db") (auto simp: authenticateUser_def)
  then have mem: "found \<in> set (users db)"
    by (auto simp: findUserByEmail_def dest: find_Some_mem)
  have st: "findUserById (id_user found) db = Some found"
    using find_by_id_distinct [OF assms(1) mem] by (simp add: findUserById_def)
  let ?reset = "\<lambda>u. u\<lparr>lockoutInfo :=
             \<lparr>isLocked = False, lockedUntil = None, failedAttemptCount = 0\<rparr>\<rparr>"
  let ?stamp = "\<lambda>u. u\<lparr>lastLoginAt := Some (currentDate env)\<rparr>"
  have inc: "fst (incrementFailedLoginAttempts env found db) = Inr ()"
    by (rule incrementFailedLoginAttempts_found(1) [OF st])
  have guards: "\<not> (truthy (provider (emailInfo found)) \<and> \<not> truthy (hash (passwordInfo found)))"
    "isVerified (emailInfo found)" "\<not> isAccountLocked env found"
    "comparePassword env (hash (passwordInfo found)) password"
    using assms(2) f inc
    by (auto simp: authenticateUser_def andThen_def split: if_splits prod.splits sum.splits)
  show ?thesis
  proof (cases "failedAttemptCount (lockoutInfo found) > 0")
    case True
    have st1: "findUserById (id_user found) (snd (user_update (id_user found) ?reset db))
               = Some (?reset found)"
      using st by (rule user_update_lookup) simp
    have st2: "findUserById (id_user found)
                 (snd (user_update (id_user found) ?stamp (snd (user_update (id_user found) ?reset db))))
               = Some (?stamp (?reset found))"
      using st1 by (rule user_update_lookup) simp
    have a: "authenticateUser env em password db
       = (Inr (Some found, True),
          snd (user_update (id_user found) ?stamp (snd (user_update (id_user found) ?reset db))))"
      using f guards True st st1
      by (auto simp: authenticateUser_def andThen_def resetFailedLoginAttempts_def
          user_update_found)
    from assms(2) have "user = found" by (simp add: a)
    then show ?thesis using st2 by (simp add: a)
  next
    case False
    have st2: "findUserById (id_user found) (snd (user_update (id_user found) ?stamp db))
               = Some (?stamp found)"
      using st by (rule user_update_lookup) simp
    have a: "authenticateUser env em password db
       = (Inr (Some found, True), snd (user_update (id_user found) ?stamp db))"
      using f guards False st
      by (auto simp: authenticateUser_def andThen_def user_update_found)
    from assms(2) have "user = found" by (simp add: a)
    then show ?thesis using st2 False by (simp add: a)
  qed
qed

section \<open>Properties of the token workflows\<close>

text \<open>
  C5. For the account matched by a valid, unexpired reset token, \<open>resetPasswordWithToken\<close>
  succeeds and stores: the bcrypt hash of the new password with the reset-token fields cleared; an
  unlocked lockout state with zero failed attempts if the account was locked; a verified
  email with the verification-token fields cleared if it was unverified. It deletes every
  session of the account.
\<close>

theorem resetPasswordWithToken_effect:
  assumes "find (matchesResetToken env (hashData env token)) (users db) = Some userDoc"
  shows "fst (resetPasswordWithToken env token newPassword db) = Inr ()
    \<and> map_option passwordInfo
        (findUserById (id_user userDoc) (snd (resetPasswordWithToken env token newPassword db)))
      = Some ((passwordInfo userDoc)\<lparr>hash := Some (bcryptHash env newPassword),
                                      resetToken := None, resetExpires := None\<rparr>)
    \<and> map_option lockoutInfo
        (findUserById (id_user userDoc) (snd (resetPasswordWithToken env token newPassword db)))
      = Some (if isLocked (lockoutInfo userDoc)
              then \<lparr>isLocked = False, lockedUntil = None, failedAttemptCount = 0\<rparr>
              else lockoutInfo userDoc)
    \<and> map_option emailInfo
        (findUserById (id_user userDoc) (snd (resetPasswordWithToken env token newPassword db)))
      = Some (if isVerified (emailInfo userDoc) then emailInfo userDoc
              else (emailInfo userDoc)\<lparr>isVerified := True, verificationToken := None,
                                        verificationExpires := None\<rparr>)
    \<and> sessions (snd (resetPasswordWithToken env token newPassword db))
      = filter (\<lambda>s. userId s \<noteq> id_user userDoc) (sessions db)
    \<and> id_user userDoc
        \<notin> userId ` set (sessions (snd (resetPasswordWithToken env token newPassword db)))"
proof -
  from resetPasswordWithToken_matched [OF assms, of newPassword]
  have r: "resetPasswordWithToken env token newPassword db
       = (Inr (),
          \<lparr>users = map (\<lambda>v. if id_user v = id_user userDoc
                             then resetPasswordData env newPassword userDoc v else v) (users db),
           sessions = filter (\<lambda>s. userId s \<noteq> id_user userDoc) (sessions db)\<rparr>)"
    by blast
  from resetPasswordWithToken_stored [OF assms, of newPassword]
  obtain stored where
    s: "findUserById (id_user userDoc) (snd (resetPasswordWithToken env token newPassword db))
       = Some (resetPasswordData env newPassword userDoc stored)"
    by blast
  have 1: "fst (resetPasswordWithToken env token newPassword db) = Inr ()"
    by (simp add: r)
  have 5: "sessions (snd (resetPasswordWithToken env token newPassword db))
      = filter (\<lambda>s. userId s \<noteq> id_user userDoc) (sessions db)"
    by (simp add: r)
  have 6: "id_user userDoc
      \<notin> userId ` set (sessions (snd (resetPasswordWithToken env token newPassword db)))"
    unfolding 5 by auto
  show ?thesis
    unfolding s using 1 5 6 by (simp add: resetPasswordData_def hashPassword_def Let_def)
qed

theorem resetPasswordWithToken_effect_witness:
  "find (matchesResetToken env0 (hashData env0 ''tok'')) (users dbD) = Some userD
   \<and> isLocked (lockoutInfo userD) \<and> \<not> isVerified (emailInfo userD)
   \<and> fst (resetPasswordWithToken env0 ''tok'' ''NewP@ss1'' dbD) = Inr ()
   \<and> map_option passwordInfo
       (findUserById ''u1'' (snd (resetPasswordWithToken env0 ''tok'' ''NewP@ss1'' dbD)))
     = Some \<lparr>hash = Some ''$NewP@ss1'', resetToken = None, resetExpires = None\<rparr>
   \<and> map_option lockoutInfo
       (findUserById ''u1'' (snd (resetPasswordWithToken env0 ''tok'' ''NewP@ss1'' dbD)))
     = Some \<lparr>isLocked = False, lockedUntil = None, failedAttemptCount = 0\<rparr>
   \<and> map_option emailInfo
       (findUserById ''u1'' (snd (resetPasswordWithToken env0 ''tok'' ''NewP@ss1'' dbD)))
     = Some \<lparr>isVerified = True, verificationToken = None, verificationExpires = None,
             pendingEmail = None, provider = None\<rparr>
   \<and> sessions (snd (resetPasswordWithToken env0 ''tok'' ''NewP@ss1'' dbD)) = [session2]"
proof -
  have h: "find (matchesResetToken env0 (hashData env0 ''tok'')) (users dbD) = Some userD"
    by (simp add: matchesResetToken_def after_now_def currentDate_def env0_def dbD_def
        userD_def user0_def)
  from resetPasswordWithToken_effect [OF h, of "''NewP@ss1''"] h
  show ?thesis
    by (simp add: userD_def user0_def dbD_def session1_def session2_def session3_def
        hashPassword_def env0_def)
qed

text \<open>
  C2. Verification tokens are single-use. A successful \<open>verifyEmailWithToken\<close> returns the
  account as stored by the one update that marks it verified, with the token hash and
  expiry cleared, and a successful \<open>resetPasswordWithToken\<close> stores the new password hash
  with the reset-token hash and expiry cleared in one update; for a token whose hash is
  stored on one account, consuming the same plaintext again fails with the invalid-token
  error and changes nothing.
\<close>

theorem verification_tokens_single_use:
  "(fst (verifyEmailWithToken env token db) = Inr r
      \<and> uniqueVerificationToken (hashData env token) db \<and> hashData env' = hashData env
    \<longrightarrow> isVerified (emailInfo (fst r))
        \<and> verificationToken (emailInfo (fst r)) = None
        \<and> verificationExpires (emailInfo (fst r)) = None
        \<and> findUserById (id_user (fst r)) (snd (verifyEmailWithToken env token db)) = Some (fst r)
        \<and> verifyEmailWithToken env' token (snd (verifyEmailWithToken env token db))
          = (Inl (AppError ''Invalid or expired email verification token'' 403),
             snd (verifyEmailWithToken env token db)))
   \<and> (fst (resetPasswordWithToken env token pw db) = Inr ()
      \<and> uniqueResetToken (hashData env token) db \<and> hashData env' = hashData env
    \<longrightarrow> (\<exists>userDoc. find (matchesResetToken env (hashData env token)) (users db) = Some userDoc
           \<and> map_option passwordInfo
               (findUserById (id_user userDoc) (snd (resetPasswordWithToken env token pw db)))
             = Some ((passwordInfo userDoc)\<lparr>hash := Some (bcryptHash env pw),
                                             resetToken := None, resetExpires := None\<rparr>))
        \<and> resetPasswordWithToken env' token pw' (snd (resetPasswordWithToken env token pw db))
          = (Inl (AppError ''Invalid or expired password reset token'' 500),
             snd (resetPasswordWithToken env token pw db)))"
proof (intro conjI impI)
  assume a: "fst (verifyEmailWithToken env token db) = Inr r
      \<and> uniqueVerificationToken (hashData env token) db \<and> hashData env' = hashData env"
  from verifyEmailWithToken_success [of env token db r] a
  obtain userDoc stored where
    st: "findUserById (id_user userDoc) db = Some stored"
    and res: "verifyEmailWithToken env token db
       = (Inr (verifyEmailData userDoc stored, \<not> isVerified (emailInfo userDoc)),
          db\<lparr>users := map (\<lambda>v. if id_user v = id_user userDoc
                             then verifyEmailData userDoc v else v) (users db)\<rparr>)"
    by blast
  from a have r: "fst r = verifyEmailData userDoc stored" by (auto simp: res)
  from st have sid: "id_user stored = id_user userDoc"
    by (auto simp: findUserById_def dest: find_Some_mem)
  have keep: "\<And>v. id_user (verifyEmailData userDoc v) = id_user v"
    by (simp add: verifyEmailData_def Let_def)
  show "isVerified (emailInfo (fst r))" by (simp add: r verifyEmailData_cleared)
  show "verificationToken (emailInfo (fst r)) = None" by (simp add: r verifyEmailData_cleared)
  show "verificationExpires (emailInfo (fst r)) = None" by (simp add: r verifyEmailData_cleared)
  show "findUserById (id_user (fst r)) (snd (verifyEmailWithToken env token db)) = Some (fst r)"
    using find_map_by_id [of "verifyEmailData userDoc" "id_user userDoc" "users db", OF keep] st
    by (simp add: r res keep sid findUserById_def)
  show "verifyEmailWithToken env' token (snd (verifyEmailWithToken env token db))
          = (Inl (AppError ''Invalid or expired email verification token'' 403),
             snd (verifyEmailWithToken env token db))"
    using a verify_second_use [of env token db r env'] by blast
next
  assume a: "fst (resetPasswordWithToken env token pw db) = Inr ()
      \<and> uniqueResetToken (hashData env token) db \<and> hashData env' = hashData env"
  then obtain userDoc where
    m: "find (matchesResetToken env (hashData env token)) (users db) = Some userDoc"
    by (cases "find (matchesResetToken env (hashData env token)) (users db)")
       (auto simp: resetPasswordWithToken_unmatched)
  from resetPasswordWithToken_stored [OF m, of pw]
  obtain stored where
    s: "findUserById (id_user userDoc) (snd (resetPasswordWithToken env token pw db))
       = Some (resetPasswordData env pw userDoc stored)"
    by blast
  have "map_option passwordInfo
               (findUserById (id_user userDoc) (snd (resetPasswordWithToken env token pw db)))
             = Some ((passwordInfo userDoc)\<lparr>hash := Some (bcryptHash env pw),
                                             resetToken := None, resetExpires := None\<rparr>)"
    unfolding s by (simp add: resetPasswordData_def hashPassword_def Let_def)
  with m show "\<exists>userDoc. find (matchesResetToken env (hashData env token)) (users db) = Some userDoc
           \<and> map_option passwordInfo
               (findUserById (id_user userDoc) (snd (resetPasswordWithToken env token pw db)))
             = Some ((passwordInfo userDoc)\<lparr>hash := Some (bcryptHash env pw),
                                             resetToken := None, resetExpires := None\<rparr>)"
    by blast
  show "resetPasswordWithToken env' token pw' (snd (resetPasswordWithToken env token pw db))
          = (Inl (AppError ''Invalid or expired password reset token'' 500),
             snd (resetPasswordWithToken env token pw db))"
    using a reset_second_use [of env token pw db env' pw'] by blast
qed

theorem verification_tokens_single_use_witness:
  "fst (verifyEmailWithToken env0 ''vtok'' dbD)
     = Inr (userD\<lparr>emailInfo := \<lparr>isVerified = True, verificationToken = None,
                    verificationExpires = None, pendingEmail = None, provider = None\<rparr>\<rparr>, True)
   \<and> uniqueVerificationToken (hashData env0 ''vtok'') dbD
   \<and> fst (verifyEmailWithToken env0 ''vtok'' (snd (verifyEmailWithToken env0 ''vtok'' dbD)))
     = Inl (AppError ''Invalid or expired email verification token'' 403)
   \<and> fst (resetPasswordWithToken env0 ''tok'' ''NewP@ss1'' dbD) = Inr ()
   \<and> uniqueResetToken (hashData env0 ''tok'') dbD
   \<and> fst (resetPasswordWithToken env0 ''tok'' ''Other#2''
            (snd (resetPasswordWithToken env0 ''tok'' ''NewP@ss1'' dbD)))
     = Inl (AppError ''Invalid or expired password reset token'' 500)"
proof -
  have v1: "fst (verifyEmailWithToken env0 ''vtok'' dbD)
     = Inr (userD\<lparr>emailInfo := \<lparr>isVerified = True, verificationToken = None,
                    verificationExpires = None, pendingEmail = None, provider = None\<rparr>\<rparr>, True)"
    by (simp add: verifyEmailWithToken_def matchesVerificationToken_def after_now_def
        currentDate_def env0_def dbD_def userD_def user0_def truthy_def user_update_def
        findUserById_def andThen_def verifyEmailData_def Let_def)
  have v2: "uniqueVerificationToken (hashData env0 ''vtok'') dbD"
    by (simp add: uniqueVerificationToken_def dbD_def)
  have p1: "fst (resetPasswordWithToken env0 ''tok'' ''NewP@ss1'' dbD) = Inr ()"
    by (simp add: resetPasswordWithToken_def matchesResetToken_def after_now_def
        currentDate_def env0_def dbD_def userD_def user0_def user_update_def
        findUserById_def andThen_def revokeAllUserSessions_def Let_def)
  have p2: "uniqueResetToken (hashData env0 ''tok'') dbD"
    by (simp add: uniqueResetToken_def dbD_def)
  from verification_tokens_single_use
         [of env0 "''vtok''" dbD _ env0 "''NewP@ss1''" "''Other#2''"]
       verification_tokens_single_use
         [of env0 "''tok''" dbD _ env0 "''NewP@ss1''" "''Other#2''"]
       v1 v2 p1 p2
  show ?thesis by simp
qed

text \<open>
  C6, as the code has it. After a password login that \<open>authenticateUser\<close> reports as valid,
  the stored \<open>failedAttemptCount\<close> of the account is 0 (ids being unique keys). After a
  successful \<open>resetPasswordWithToken\<close> it is 0 when the matched account had its \<open>isLocked\<close>
  flag set, and it is the count stored before otherwise: the update zeroes the counter only
  together with the unlock.
\<close>

theorem failedAttemptCount_reset:
  "(distinct (map id_user (users db))
      \<and> fst (authenticateUser env em password db) = Inr (Some user, True)
    \<longrightarrow> map_option (failedAttemptCount \<circ> lockoutInfo)
          (findUserById (id_user user) (snd (authenticateUser env em password db))) = Some 0)
   \<and> (find (matchesResetToken env (hashData env token)) (users db) = Some userDoc
    \<longrightarrow> fst (resetPasswordWithToken env token newPassword db) = Inr ()
        \<and> map_option (failedAttemptCount \<circ> lockoutInfo)
            (findUserById (id_user userDoc)
               (snd (resetPasswordWithToken env token newPassword db)))
          = Some (if isLocked (lockoutInfo userDoc) then 0
                  else failedAttemptCount (lockoutInfo userDoc)))"
proof (intro conjI impI)
  assume "distinct (map id_user (users db))
      \<and> fst (authenticateUser env em password db) = Inr (Some user, True)"
  then show "map_option (failedAttemptCount \<circ> lockoutInfo)
          (findUserById (id_user user) (snd (authenticateUser env em password db))) = Some 0"
    using authenticateUser_success by blast
next
  assume m: "find (matchesResetToken env (hashData env token)) (users db) = Some userDoc"
  from resetPasswordWithToken_matched [OF m, of newPassword]
  show "fst (resetPasswordWithToken env token newPassword db) = Inr ()"
    by auto
  from resetPasswordWithToken_stored [OF m, of newPassword]
  obtain stored where
    s: "findUserById (id_user userDoc) (snd (resetPasswordWithToken env token newPassword db))
       = Some (resetPasswordData env newPassword userDoc stored)"
    by blast
  show "map_option (failedAttemptCount \<circ> lockoutInfo)
            (findUserById (id_user userDoc)
               (snd (resetPasswordWithToken env token newPassword db)))
          = Some (if isLocked (lockoutInfo userDoc) then 0
                  else failedAttemptCount (lockoutInfo userDoc))"
    unfolding s by (simp add: resetPasswordData_def Let_def)
qed

theorem failedAttemptCount_reset_witness:
  "distinct (map id_user (users dbThree))
   \<and> fst (authenticateUser env0 ''jane@x.com'' ''pw'' dbThree) = Inr (Some userThree, True)
   \<and> failedAttemptCount (lockoutInfo userThree) = 3
   \<and> map_option (failedAttemptCount \<circ> lockoutInfo)
       (findUserById ''u1'' (snd (authenticateUser env0 ''jane@x.com'' ''pw'' dbThree))) = Some 0
   \<and> find (matchesResetToken env0 (hashData env0 ''tok'')) (users dbD) = Some userD
   \<and> failedAttemptCount (lockoutInfo userD) = 5
   \<and> map_option (failedAttemptCount \<circ> lockoutInfo)
       (findUserById ''u1'' (snd (resetPasswordWithToken env0 ''tok'' ''NewP@ss1'' dbD))) = Some 0"
proof -
  have a1: "distinct (map id_user (users dbThree))"
    by (simp add: dbThree_def)
  have a2: "fst (authenticateUser env0 ''jane@x.com'' ''pw'' dbThree) = Inr (Some userThree, True)"
    by (simp add: authenticateUser_def findUserByEmail_def dbThree_def userThree_def user0_def
        truthy_def isAccountLocked_def comparePassword_def env0_def andThen_def
        resetFailedLoginAttempts_def user_update_def findUserById_def)
  have r1: "find (matchesResetToken env0 (hashData env0 ''tok'')) (users dbD) = Some userD"
    by (simp add: matchesResetToken_def after_now_def currentDate_def env0_def dbD_def
        userD_def user0_def)
  from failedAttemptCount_reset
         [of dbThree env0 "''jane@x.com''" "''pw''" userThree "''tok''" userD "''NewP@ss1''"]
       failedAttemptCount_reset
         [of dbD env0 "''jane@x.com''" "''pw''" userThree "''tok''" userD "''NewP@ss1''"]
       a1 a2 r1
  show ?thesis by (simp add: userThree_def userD_def user0_def)
qed

text \<open>
  The claim as stated fails for a password reset on an account that is not locked: the
  three failed attempts recorded before the reset are still recorded after it.
\<close>

theorem failedAttemptCount_reset_counterexample:
  "fst (resetPasswordWithToken env0 ''tok'' ''NewP@ss1'' dbThree) = Inr ()
   \<and> map_option (failedAttemptCount \<circ> lockoutInfo)
       (findUserById ''u1'' (snd (resetPasswordWithToken env0 ''tok'' ''NewP@ss1'' dbThree)))
     = Some 3"
  by (simp add: resetPasswordWithToken_def matchesResetToken_def after_now_def
      currentDate_def env0_def dbThree_def userThree_def user0_def user_update_def
      findUserById_def andThen_def revokeAllUserSessions_def resetPasswordData_def Let_def)

section \<open>Properties of the session service\<close>

lemma refreshAccessToken_none:
  assumes "find (activeSession env (hashData env rt)) (sessions db) = None"
  shows "refreshAccessToken env rt db
         = (Inl (AppError ''Invalid or expired refresh token'' 500), db)"
  using assms by (simp add: refreshAccessToken_def throwError_def)

lemma refreshAccessToken_success:
  assumes "fst (refreshAccessToken env rt db) = Inr tp"
  shows "\<exists>session user.
       find (activeSession env (hashData env rt)) (sessions db) = Some session
     \<and> findUserById (userId session) db = Some user
     \<and> tp = \<lparr>accessToken = jwtSign env (id_user user) (email user),
             refreshToken_pair = generateRandomString env 40,
             expiresIn_pair = expiresIn env\<rparr>
     \<and> snd (refreshAccessToken env rt db)
       = db\<lparr>sessions :=
              filter (\<lambda>s. refreshToken s \<noteq> hashData env rt) (sessions db)
              @ [\<lparr>userId = id_user user,
                  refreshToken = hashData env (generateRandomString env 40),
                  userAgent = None, ipAddress = None,
                  expiresAt = addCalendarDays env (now env) (refreshExpiresIn env)\<rparr>]\<rparr>"
proof (cases "find (activeSession env (hashData env rt)) (sessions db)")
  case None
  with assms show ?thesis by (simp add: refreshAccessToken_none)
next
  case (Some session)
  show ?thesis
  proof (cases "findUserById (userId session) db")
    case None
    with assms Some show ?thesis by (simp add: refreshAccessToken_def)
  next
    case (Some user)
    from \<open>find _ _ = Some session\<close>
    have mem: "hashData env rt \<in> set (map refreshToken (sessions db))"
      by (force dest!: find_Some_mem simp: activeSession_def image_iff)
    show ?thesis
      using assms Some \<open>find _ _ = Some session\<close> mem
      by (auto simp: refreshAccessToken_def revokeRefreshToken_def session_delete_def
          andThen_def generateTokenPair_def createSession_def session_create_def Let_def
          generateAccessToken_def orNull_def truthy_def addDays_def
          split: if_splits)
  qed
qed

text \<open>
  C1. Rotation of a refresh token \<open>t\<close>. If \<open>refreshAccessToken\<close> succeeds, a stored session
  has the hashed refresh token \<open>hash(t)\<close> and an \<open>expiresAt\<close> strictly after now; the sessions
  stored afterwards are the old ones without the session of \<open>hash(t)\<close>, followed by one new
  session of the owning account for a fresh refresh token, expiring \<open>refreshExpiresIn\<close>
  calendar days after now, and the result is the access token signed for that account
  together with the fresh refresh token. If no stored session has
  \<open>hash(t)\<close> and an \<open>expiresAt\<close> after now, the call fails with the error
  ``Invalid or expired refresh token'' and the database, so also the set of sessions, is
  unchanged.
\<close>

theorem refreshAccessToken_rotation:
  "(fst (refreshAccessToken env rt db) = Inr tp \<longrightarrow>
      (\<exists>session user.
          session \<in> set (sessions db)
        \<and> refreshToken session = hashData env rt \<and> now env < expiresAt session
        \<and> findUserById (userId session) db = Some user
        \<and> tp = \<lparr>accessToken = jwtSign env (id_user user) (email user),
                refreshToken_pair = generateRandomString env 40,
                expiresIn_pair = expiresIn env\<rparr>
        \<and> sessions (snd (refreshAccessToken env rt db))
          = filter (\<lambda>s. refreshToken s \<noteq> hashData env rt) (sessions db)
            @ [\<lparr>userId = id_user user,
                refreshToken = hashData env (generateRandomString env 40),
                userAgent = None, ipAddress = None,
                expiresAt = addCalendarDays env (now env) (refreshExpiresIn env)\<rparr>]
        \<and> users (snd (refreshAccessToken env rt db)) = users db))
   \<and> (\<not> (\<exists>s \<in> set (sessions db). refreshToken s = hashData env rt \<and> now env < expiresAt s)
      \<longrightarrow> refreshAccessToken env rt db
          = (Inl (AppError ''Invalid or expired refresh token'' 500), db))"
proof (intro conjI impI)
  assume "fst (refreshAccessToken env rt db) = Inr tp"
  from refreshAccessToken_success [OF this]
  obtain session user where
    f: "find (activeSession env (hashData env rt)) (sessions db) = Some session"
    and u: "findUserById (userId session) db = Some user"
    and t: "tp = \<lparr>accessToken = jwtSign env (id_user user) (email user),
             refreshToken_pair = generateRandomString env 40,
             expiresIn_pair = expiresIn env\<rparr>"
    and d: "snd (refreshAccessToken env rt db)
       = db\<lparr>sessions :=
              filter (\<lambda>s. refreshToken s \<noteq> hashData env rt) (sessions db)
              @ [\<lparr>userId = id_user user,
                  refreshToken = hashData env (generateRandomString env 40),
                  userAgent = None, ipAddress = None,
                  expiresAt = addCalendarDays env (now env) (refreshExpiresIn env)\<rparr>]\<rparr>"
    by blast
  from f have s: "session \<in> set (sessions db)" "refreshToken session = hashData env rt"
    "now env < expiresAt session"
    by (auto dest!: find_Some_mem simp: activeSession_def currentDate_def)
  show "\<exists>session user.
          session \<in> set (sessions db)
        \<and> refreshToken session = hashData env rt \<and> now env < expiresAt session
        \<and> findUserById (userId session) db = Some user
        \<and> tp = \<lparr>accessToken = jwtSign env (id_user user) (email user),
                refreshToken_pair = generateRandomString env 40,
                expiresIn_pair = expiresIn env\<rparr>
        \<and> sessions (snd (refreshAccessToken env rt db))
          = filter (\<lambda>s. refreshToken s \<noteq> hashData env rt) (sessions db)
            @ [\<lparr>userId = id_user user,
                refreshToken = hashData env (generateRandomString env 40),
                userAgent = None, ipAddress = None,
                expiresAt = addCalendarDays env (now env) (refreshExpiresIn env)\<rparr>]
        \<and> users (snd (refreshAccessToken env rt db)) = users db"
    using s u t by (intro exI [of _ session] exI [of _ user]) (simp add: d)
next
  assume "\<not> (\<exists>s \<in> set (sessions db). refreshToken s = hashData env rt \<and> now env < expiresAt s)"
  then have "find (activeSession env (hashData env rt)) (sessions db) = None"
    by (auto simp: find_None_iff activeSession_def currentDate_def)
  then show "refreshAccessToken env rt db
          = (Inl (AppError ''Invalid or expired refresh token'' 500), db)"
    by (rule refreshAccessToken_none)
qed

theorem refreshAccessToken_rotation_witness:
  "fst (refreshAccessToken env0 ''r1'' dbD)
     = Inr \<lparr>accessToken = ''u1.jane@x.com'', refreshToken_pair = generateRandomString env0 40,
            expiresIn_pair = ''15m''\<rparr>
   \<and> sessions (snd (refreshAccessToken env0 ''r1'' dbD))
     = [session2, session3,
        \<lparr>userId = ''u1'', refreshToken = hashData env0 (generateRandomString env0 40),
         userAgent = None, ipAddress = None, expiresAt = 604801000\<rparr>]
   \<and> \<not> (\<exists>s \<in> set (sessions dbD). refreshToken s = hashData env0 ''r3'' \<and> now env0 < expiresAt s)
   \<and> refreshAccessToken env0 ''r3'' dbD
     = (Inl (AppError ''Invalid or expired refresh token'' 500), dbD)"
proof -
  have ok: "fst (refreshAccessToken env0 ''r1'' dbD)
     = Inr \<lparr>accessToken = ''u1.jane@x.com'', refreshToken_pair = generateRandomString env0 40,
            expiresIn_pair = ''15m''\<rparr>"
    by code_simp
  have expired: "\<not> (\<exists>s \<in> set (sessions dbD).
                     refreshToken s = hashData env0 ''r3'' \<and> now env0 < expiresAt s)"
    by (simp add: dbD_def session1_def session2_def session3_def env0_def)
  have kept: "filter (\<lambda>s. refreshToken s \<noteq> hashData env0 ''r1'') (sessions dbD)
              = [session2, session3]"
    by (simp add: dbD_def session1_def session2_def session3_def env0_def)
  have owner: "findUserById ''u1'' dbD = Some userD"
    by (simp add: findUserById_def dbD_def userD_def user0_def)
  have ids: "id_user userD = ''u1''" "addCalendarDays env0 (now env0) (refreshExpiresIn env0) = 604801000"
    by (simp_all add: userD_def user0_def env0_def)
  from refreshAccessToken_rotation [of env0 "''r1''" dbD _ ] ok
  obtain session user where
    "session \<in> set (sessions dbD)" "refreshToken session = hashData env0 ''r1''"
    "findUserById (userId session) dbD = Some user"
    "sessions (snd (refreshAccessToken env0 ''r1'' dbD))
          = filter (\<lambda>s. refreshToken s \<noteq> hashData env0 ''r1'') (sessions dbD)
            @ [\<lparr>userId = id_user user,
                refreshToken = hashData env0 (generateRandomString env0 40),
                userAgent = None, ipAddress = None,
                expiresAt = addCalendarDays env0 (now env0) (refreshExpiresIn env0)\<rparr>]"
    by blast
  moreover from this(1,2) have "userId session = ''u1''"
    by (auto simp: dbD_def session1_def session2_def session3_def env0_def)
  ultimately have
    "sessions (snd (refreshAccessToken env0 ''r1'' dbD))
     = [session2, session3,
        \<lparr>userId = ''u1'', refreshToken = hashData env0 (generateRandomString env0 40),
         userAgent = None, ipAddress = None, expiresAt = 604801000\<rparr>]"
    using owner kept ids by simp
  with ok expired refreshAccessToken_rotation [of env0 "''r3''" dbD]
  show ?thesis by simp
qed

section \<open>Properties of access-token verification\<close>

text \<open>
  What \<open>verifyAccessToken\<close> answers for each class of error the JWT library throws: the
  code is always 401, the message follows the first \<open>instanceof\<close> branch that applies.
\<close>

lemma verifyAccessToken_by_class:
  "(jwtVerify env token = Thrown err \<longrightarrow>
      verifyAccessToken env token
      = Inl (AppError
          (case err of
             TokenExpiredError \<Rightarrow> ''Access token has expired''
           | NotBeforeError \<Rightarrow> ''Access token not yet valid''
           | JsonWebTokenError reason \<Rightarrow> ''Invalid access token''
           | OtherThrown \<Rightarrow> ''Invalid or expired access token'') 401))
   \<and> (jwtVerify env token = Verified payload \<longrightarrow> verifyAccessToken env token = Inr payload)"
  by (cases err) (simp_all add: verifyAccessToken_def throwError_def)

text \<open>
  C7. Every invalid access token is to be rejected with the one generic error
  ``Invalid or expired access token'', so that the error does not tell the reason; the
  tests of \<open>verifyAccessToken\<close> expect that message for an invalid, an expired and a
  malformed token. The code does not do this on the errors the library really throws: an
  expired token, for which \<open>jwt.verify\<close> throws \<open>TokenExpiredError\<close>, is rejected with
  ``Access token has expired'', and a malformed one, for which it throws
  \<open>JsonWebTokenError\<close>, with ``Invalid access token''. Neither is the generic error, and
  the two differ from each other.
\<close>

theorem verifyAccessToken_not_generic:
  "jwtVerify env0 ''expired'' = Thrown TokenExpiredError
   \<and> jwtVerify env0 ''tampered'' = Thrown (JsonWebTokenError ''jwt malformed'')
   \<and> verifyAccessToken env0 ''expired'' = Inl (AppError ''Access token has expired'' 401)
   \<and> verifyAccessToken env0 ''tampered'' = Inl (AppError ''Invalid access token'' 401)
   \<and> verifyAccessToken env0 ''expired''
       \<noteq> Inl (AppError ''Invalid or expired access token'' 401)
   \<and> verifyAccessToken env0 ''tampered''
       \<noteq> Inl (AppError ''Invalid or expired access token'' 401)
   \<and> verifyAccessToken env0 ''expired'' \<noteq> verifyAccessToken env0 ''tampered''"
  by (simp add: verifyAccessToken_def throwError_def env0_def)

section \<open>Properties of the profile update\<close>

lemma find_filter_keep:
  assumes "\<And>x. P x \<Longrightarrow> Q x"
  shows "find P (filter Q xs) = find P xs"
  using assms by (induction xs) auto

lemma conflictCheck_passes:
  assumes "id_user user \<noteq> []"
    and "findUserById (id_user user) db = Some stored"
    and "\<forall>ex field. checkUserExists (email_upd updates) (phone_upd updates) (id_user user) db
                       = Exists ex field \<longrightarrow> \<not> isVerified (emailInfo ex)"
  shows "fst (conflictCheck user updates db) = Inr ()"
    and "findUserById (id_user user) (snd (conflictCheck user updates db)) = Some stored"
proof -
  have "fst (conflictCheck user updates db) = Inr ()
      \<and> findUserById (id_user user) (snd (conflictCheck user updates db)) = Some stored"
  proof (cases "checkUserExists (email_upd updates) (phone_upd updates) (id_user user) db")
    case NotExists
    then show ?thesis using assms(2) by (simp add: conflictCheck_def)
  next
    case (Exists ex field)
    with assms(3) have unv: "\<not> isVerified (emailInfo ex)" by blast
    from Exists have ex: "ex \<in> set (users db)" "id_user ex \<noteq> id_user user"
      using assms(1)
      by (auto simp: checkUserExists_def split: if_splits option.splits dest!: find_Some_mem)
    let ?hit = "\<lambda>u. id_user u = id_user ex \<and> \<not> isVerified (emailInfo u)"
    from ex unv have "filter ?hit (users db) \<noteq> []"
      by (auto simp: filter_empty_conv)
    then have del: "deleteUnverifiedUser (id_user ex) db
                    = (Inr (), db\<lparr>users := filter (\<lambda>u. \<not> ?hit u) (users db)\<rparr>)"
      by (simp add: deleteUnverifiedUser_def Let_def)
    have "find (\<lambda>u. id_user u = id_user user) (filter (\<lambda>u. \<not> ?hit u) (users db))
          = find (\<lambda>u. id_user u = id_user user) (users db)"
      using ex(2) by (intro find_filter_keep) auto
    then show ?thesis
      using Exists unv assms(2) del
      by (simp add: conflictCheck_def findUserById_def)
  qed
  then show "fst (conflictCheck user updates db) = Inr ()"
    and "findUserById (id_user user) (snd (conflictCheck user updates db)) = Some stored"
    by simp_all
qed

lemma emailChange_rollback:
  assumes "findUserById (id_user user) db = Some stored"
    and "sendEmailVerification env newEmail = Inl err"
  shows "fst (emailChange env user newEmail db) = Inl err"
    and "findUserById (id_user user) (snd (emailChange env user newEmail db))
         = Some (stored\<lparr>emailInfo := (emailInfo user)\<lparr>pendingEmail := None,
               verificationToken := None, verificationExpires := None\<rparr>\<rparr>)"
proof -
  obtain token hashed expires where g: "generateVerificationToken env 1 Days = (token, hashed, expires)"
    by (cases "generateVerificationToken env 1 Days") auto
  let ?pend = "\<lambda>u. u\<lparr>emailInfo :=
                        (emailInfo user)\<lparr>pendingEmail := Some newEmail,
                                         verificationToken := Some hashed,
                                         verificationExpires := Some expires\<rparr>\<rparr>"
  let ?roll = "\<lambda>u. u\<lparr>emailInfo :=
                       (emailInfo user)\<lparr>pendingEmail := None, verificationToken := None,
                                        verificationExpires := None\<rparr>\<rparr>"
  have s1: "findUserById (id_user user) (snd (user_update (id_user user) ?pend db))
            = Some (?pend stored)"
    using assms(1) by (rule user_update_lookup) simp
  have s2: "findUserById (id_user user)
              (snd (user_update (id_user user) ?roll (snd (user_update (id_user user) ?pend db))))
            = Some (?roll (?pend stored))"
    using s1 by (rule user_update_lookup) simp
  have e: "emailChange env user newEmail db
           = (Inl err, snd (user_update (id_user user) ?roll
                              (snd (user_update (id_user user) ?pend db))))"
    using assms s1 g
    by (simp add: emailChange_def andThen_def user_update_found)
  show "fst (emailChange env user newEmail db) = Inl err" by (simp add: e)
  show "findUserById (id_user user) (snd (emailChange env user newEmail db))
         = Some (stored\<lparr>emailInfo := (emailInfo user)\<lparr>pendingEmail := None,
               verificationToken := None, verificationExpires := None\<rparr>\<rparr>)"
    using s2 by (simp add: e)
qed

text \<open>
  C8. In \<open>updateUserProfile\<close>, when a new email address is supplied (the conflict check
  finding no verified account in the way) and sending the verification email throws, the
  call fails with the error of the email step, and the stored account has \<open>pendingEmail\<close>,
  \<open>verificationToken\<close> and \<open>verificationExpires\<close> equal to null: no pending email change
  is left behind.
\<close>

theorem updateUserProfile_rollback:
  assumes "email_upd updates = Some newEmail" and "newEmail \<noteq> []" and "newEmail \<noteq> email user"
    and "id_user user \<noteq> []"
    and "findUserById (id_user user) db = Some stored"
    and "\<forall>ex field. checkUserExists (email_upd updates) (phone_upd updates) (id_user user) db
                       = Exists ex field \<longrightarrow> \<not> isVerified (emailInfo ex)"
    and "sendEmailVerification env newEmail = Inl err"
  shows "fst (updateUserProfile env user updates db) = Inl err
     \<and> map_option emailInfo
         (findUserById (id_user user) (snd (updateUserProfile env user updates db)))
       = Some ((emailInfo user)\<lparr>pendingEmail := None, verificationToken := None,
                                verificationExpires := None\<rparr>)"
proof -
  obtain db1 where c: "conflictCheck user updates db = (Inr (), db1)"
    and s1: "findUserById (id_user user) db1 = Some stored"
    using conflictCheck_passes [OF assms(4,5,6)]
    by (cases "conflictCheck user updates db") auto
  from emailChange_rollback [OF s1 assms(7)]
  obtain db2 where e: "emailChange env user newEmail db1 = (Inl err, db2)"
    and s2: "findUserById (id_user user) db2
         = Some (stored\<lparr>emailInfo := (emailInfo user)\<lparr>pendingEmail := None,
               verificationToken := None, verificationExpires := None\<rparr>\<rparr>)"
    by (cases "emailChange env user newEmail db1") auto
  have "updateUserProfile env user updates db = (Inl err, db2)"
    using assms(1,2,3) c e
    by (simp add: updateUserProfile_def andThen_def truthy_def)
  then show ?thesis using s2 by simp
qed

theorem updateUserProfile_rollback_witness:
  "email_upd emailUpdate = Some ''new@x.com'' \<and> ''new@x.com'' \<noteq> email user0
   \<and> findUserById (id_user user0) db0 = Some user0
   \<and> sendEmailVerification env0 ''new@x.com'' = Inl (AppError ''Failed to send email'' 500)
   \<and> fst (updateUserProfile env0 user0 emailUpdate db0)
     = Inl (AppError ''Failed to send email'' 500)
   \<and> map_option emailInfo
       (findUserById ''u1'' (snd (updateUserProfile env0 user0 emailUpdate db0)))
     = Some \<lparr>isVerified = True, verificationToken = None, verificationExpires = None,
             pendingEmail = None, provider = None\<rparr>"
proof -
  have h1: "email_upd emailUpdate = Some ''new@x.com''"
    by (simp add: emailUpdate_def)
  have h2: "''new@x.com'' \<noteq> []" by simp
  have h3: "''new@x.com'' \<noteq> email user0" by (simp add: user0_def)
  have h4: "id_user user0 \<noteq> []" by (simp add: user0_def)
  have h5: "findUserById (id_user user0) db0 = Some user0"
    by (simp add: findUserById_def db0_def user0_def)
  have h6: "\<forall>ex field. checkUserExists (email_upd emailUpdate) (phone_upd emailUpdate)
                         (id_user user0) db0 = Exists ex field \<longrightarrow> \<not> isVerified (emailInfo ex)"
    by (simp add: checkUserExists_def emailUpdate_def db0_def user0_def truthy_def)
  have h7: "sendEmailVerification env0 ''new@x.com'' = Inl (AppError ''Failed to send email'' 500)"
    by (simp add: sendEmailVerification_def sendEmail_def throwError_def env0_def)
  from updateUserProfile_rollback [OF h1 h2 h3 h4 h5 h6 h7] h1 h3 h5 h7
  show ?thesis by (simp add: user0_def)
qed

section \<open>Properties of the GitHub sign-in\<close>

text \<open>
  C9, as the code has it. When the GitHub profile carries no email, \<open>handleGithubAuth\<close>
  requests the email list from the GitHub email API with the header \<open>token <accessToken>\<close>.
  If the request is rejected, the response is not OK or its body does not parse, the call
  fails with code 400 (``Unable to retrieve user email from GitHub''). Otherwise the address
  of the first entry flagged primary is selected, or that of the first entry when none is
  flagged; if this gives no address the call fails with code 404
  (``No email found for GitHub user''), and if it gives one and the profile has a display
  name the account is resolved for that address.
\<close>

theorem handleGithubAuth_email:
  "\<not> truthy (firstValue (emails profile)) \<longrightarrow>
     ((fetch env GITHUB_EMAIL_API (''token '' @ token) = FetchRejected
        \<or> (\<exists>status body. fetch env GITHUB_EMAIL_API (''token '' @ token)
                           = Response False status body)
        \<or> (\<exists>status. fetch env GITHUB_EMAIL_API (''token '' @ token)
                      = Response True status None)
       \<longrightarrow> handleGithubAuth env profile token db
           = (Inl (AppError ''Unable to retrieve user email from GitHub'' 400), db))
      \<and> (\<forall>status list.
            fetch env GITHUB_EMAIL_API (''token '' @ token) = Response True status (Some list)
            \<longrightarrow> (\<forall>e. find primary list = Some e \<longrightarrow> selectEmail list = Some (email_gh e))
                \<and> (find primary list = None
                    \<longrightarrow> selectEmail list
                        = (case list of [] \<Rightarrow> None | e # _ \<Rightarrow> Some (email_gh e)))
                \<and> (\<not> truthy (selectEmail list)
                    \<longrightarrow> handleGithubAuth env profile token db
                        = (Inl (AppError ''No email found for GitHub user'' 404), db))
                \<and> (truthy (selectEmail list)
                      \<and> truthy (firstTruthy (displayName profile) (username profile))
                    \<longrightarrow> handleGithubAuth env profile token db
                        = createOAuthUser env
                            \<lparr>email_oauth = the (selectEmail list),
                             displayName_oauth =
                               the (firstTruthy (displayName profile) (username profile)),
                             avatarUrl_oauth = orNull (firstValue (photos profile)),
                             provider_oauth = ''github'', isVerified_oauth = True\<rparr> db)))"
  by (auto simp: handleGithubAuth_def fetchGithubEmail_def githubUser_def selectEmail_def
      throwError_def Let_def)

theorem handleGithubAuth_email_witness:
  "\<not> truthy (firstValue (emails profileNoEmail))
   \<and> fetch envGithub GITHUB_EMAIL_API (''token '' @ ''gho_abc'')
     = Response True 200 (Some githubEmails)
   \<and> selectEmail githubEmails = Some ''primary@example.com''
   \<and> map_sum id email (fst (handleGithubAuth envGithub profileNoEmail ''gho_abc'' db0))
     = Inr ''primary@example.com''
   \<and> fetch envGithub GITHUB_EMAIL_API (''token '' @ ''stale'') = FetchRejected
   \<and> handleGithubAuth envGithub profileNoEmail ''stale'' db0
     = (Inl (AppError ''Unable to retrieve user email from GitHub'' 400), db0)"
proof -
  have h1: "\<not> truthy (firstValue (emails profileNoEmail))"
    by (simp add: profileNoEmail_def firstValue_def truthy_def)
  have h2: "fetch envGithub GITHUB_EMAIL_API (''token '' @ ''gho_abc'')
            = Response True 200 (Some githubEmails)"
    by (simp add: envGithub_def GITHUB_EMAIL_API_def)
  have h3: "fetch envGithub GITHUB_EMAIL_API (''token '' @ ''stale'') = FetchRejected"
    by (simp add: envGithub_def GITHUB_EMAIL_API_def)
  have h4: "selectEmail githubEmails = Some ''primary@example.com''"
    by (simp add: selectEmail_def githubEmails_def)
  have h5: "firstTruthy (displayName profileNoEmail) (username profileNoEmail)
            = Some ''GitHub User''"
    by (simp add: firstTruthy_def profileNoEmail_def truthy_def)
  have h6: "map_sum id email
              (fst (createOAuthUser envGithub
                 \<lparr>email_oauth = ''primary@example.com'', displayName_oauth = ''GitHub User'',
                  avatarUrl_oauth = orNull (firstValue (photos profileNoEmail)),
                  provider_oauth = ''github'', isVerified_oauth = True\<rparr> db0))
            = Inr ''primary@example.com''"
    by (simp add: createOAuthUser_def findUserByEmail_def db0_def user0_def Let_def)
  from handleGithubAuth_email [of profileNoEmail envGithub "''gho_abc''" db0]
       handleGithubAuth_email [of profileNoEmail envGithub "''stale''" db0]
       h1 h2 h3 h4 h5 h6
  show ?thesis by (simp add: truthy_def)
qed

text \<open>
  The claim as stated fails when the API answers with an empty list: no email can be
  obtained, and the error has code 404, not 400.
\<close>

theorem handleGithubAuth_email_counterexample:
  "fetch env0 GITHUB_EMAIL_API (''token '' @ ''gho_abc'') = Response True 200 (Some [])
   \<and> handleGithubAuth env0 profileNoEmail ''gho_abc'' db0
     = (Inl (AppError ''No email found for GitHub user'' 404), db0)"
  by (simp add: handleGithubAuth_def fetchGithubEmail_def githubUser_def selectEmail_def
      throwError_def Let_def env0_def profileNoEmail_def firstValue_def truthy_def)

end
